theory Spec2Isabelle
  imports Complex_Main
begin

section \<open>Python values and the operations the gateway code applies to them\<close>

text \<open>
  \<^verbatim>\<open>gateway3.py\<close> works on the objects that \<^verbatim>\<open>json.loads\<close> returns and on
  dictionaries it builds itself. They are modelled by one datatype of Python values.
  A dictionary is an association list in insertion order. A float is a binary64
  number; \<open>PFloat q\<close> is the finite double whose value is the rational \<open>q\<close>, and
  every float operation of the code rounds its exact result to the nearest double
  (section \<open>Floats\<close> below). The values of the model are those of JSON documents:
  \<^verbatim>\<open>json.loads\<close> also reads the literals \<^verbatim>\<open>NaN\<close> and \<^verbatim>\<open>Infinity\<close>, which JSON does not have;
  they are not represented, and no operation of the code makes them from finite numbers.
\<close>

datatype pyval =
    PNone
  | PBool bool
  | PInt int
  | PFloat rat
  | PStr string
  | PList "pyval list"
  | PDict "(pyval \<times> pyval) list"

type_synonym pydict = "(pyval \<times> pyval) list"

text \<open>
  The exceptions of the model. \<open>ExternalError\<close> is whatever a collaborator outside
  this file raises (the JSON parser, the telnet session, the miio client).
\<close>

datatype py_error =
    KeyError
  | TypeError
  | IndexError
  | AttributeError
  | AssertionError
  | StopIteration
  | OverflowError
  | ExternalError

text \<open>Sequencing of two computations that may raise.\<close>

definition andThen :: "py_error + 'a \<Rightarrow> ('a \<Rightarrow> py_error + 'b) \<Rightarrow> py_error + 'b" where
  "andThen r f = (case r of Inl e \<Rightarrow> Inl e | Inr x \<Rightarrow> f x)"

subsection \<open>Numbers, equality, truth value\<close>

text \<open>\<^verbatim>\<open>bool\<close> is a subclass of \<^verbatim>\<open>int\<close>: \<^verbatim>\<open>True\<close> counts as 1 in arithmetic.\<close>

fun num_val :: "pyval \<Rightarrow> rat option" where
  "num_val (PBool b) = Some (if b then 1 else 0)"
| "num_val (PInt i) = Some (of_int i)"
| "num_val (PFloat q) = Some q"
| "num_val _ = None"

text \<open>
  \<^verbatim>\<open>a == b\<close>: numbers compare by value across \<^verbatim>\<open>bool\<close>, \<^verbatim>\<open>int\<close> and \<^verbatim>\<open>float\<close>; a number
  never equals a non-number; other values compare structurally. The gateway code
  compares only with strings, with \<^verbatim>\<open>None\<close> and with dictionary keys (which are hashable,
  so never a list or a dictionary); there the structural comparison is the answer of
  Python. Between two lists or two dictionaries Python would also identify \<^verbatim>\<open>1\<close> with
  \<^verbatim>\<open>True\<close> inside them and ignore the order of a dictionary, which is not modelled.
\<close>

definition py_eq :: "pyval \<Rightarrow> pyval \<Rightarrow> bool" where
  "py_eq a b =
     (case (num_val a, num_val b) of
        (Some x, Some y) \<Rightarrow> x = y
      | (None, None) \<Rightarrow> a = b
      | _ \<Rightarrow> False)"

text \<open>\<^verbatim>\<open>if v:\<close> and \<^verbatim>\<open>not v\<close>.\<close>

fun truthy :: "pyval \<Rightarrow> bool" where
  "truthy PNone = False"
| "truthy (PBool b) = b"
| "truthy (PInt i) = (i \<noteq> 0)"
| "truthy (PFloat q) = (q \<noteq> 0)"
| "truthy (PStr s) = (s \<noteq> [])"
| "truthy (PList xs) = (xs \<noteq> [])"
| "truthy (PDict d) = (d \<noteq> [])"

text \<open>Lists and dictionaries cannot be dictionary keys.\<close>

fun hashable :: "pyval \<Rightarrow> bool" where
  "hashable (PList xs) = False"
| "hashable (PDict d) = False"
| "hashable _ = True"

subsection \<open>Dictionaries\<close>

fun dict_get :: "(pyval \<times> 'v) list \<Rightarrow> pyval \<Rightarrow> 'v option" where
  "dict_get [] k = None"
| "dict_get ((k', v) # d) k = (if py_eq k' k then Some v else dict_get d k)"

text \<open>\<^verbatim>\<open>d[k] = v\<close>: an existing key keeps its place (and its key object).\<close>

fun dict_set :: "(pyval \<times> 'v) list \<Rightarrow> pyval \<Rightarrow> 'v \<Rightarrow> (pyval \<times> 'v) list" where
  "dict_set [] k v = [(k, v)]"
| "dict_set ((k', v') # d) k v =
     (if py_eq k' k then (k', v) # d else (k', v') # dict_set d k v)"

definition dict_has :: "(pyval \<times> 'v) list \<Rightarrow> pyval \<Rightarrow> bool" where
  "dict_has d k = (case dict_get d k of None \<Rightarrow> False | Some v \<Rightarrow> True)"

text \<open>\<^verbatim>\<open>k in d\<close>, \<^verbatim>\<open>d[k]\<close> and \<^verbatim>\<open>d.get(k)\<close> hash the key first.\<close>

definition dict_contains :: "(pyval \<times> 'v) list \<Rightarrow> pyval \<Rightarrow> py_error + bool" where
  "dict_contains d k = (if hashable k then Inr (dict_has d k) else Inl TypeError)"

definition dict_item :: "(pyval \<times> 'v) list \<Rightarrow> pyval \<Rightarrow> py_error + 'v" where
  "dict_item d k =
     (if hashable k
      then (case dict_get d k of None \<Rightarrow> Inl KeyError | Some v \<Rightarrow> Inr v)
      else Inl TypeError)"

definition dict_store :: "(pyval \<times> 'v) list \<Rightarrow> pyval \<Rightarrow> 'v \<Rightarrow> py_error + (pyval \<times> 'v) list" where
  "dict_store d k v = (if hashable k then Inr (dict_set d k v) else Inl TypeError)"

text \<open>\<^verbatim>\<open>d.update(e)\<close> for a dictionary \<open>e\<close>.\<close>

fun dict_update :: "(pyval \<times> 'v) list \<Rightarrow> (pyval \<times> 'v) list \<Rightarrow> (pyval \<times> 'v) list" where
  "dict_update d [] = d"
| "dict_update d ((k, v) # e) = dict_update (dict_set d k v) e"

subsection \<open>Subscription, length, iteration, membership\<close>

text \<open>An integer index (a \<^verbatim>\<open>bool\<close> is one); negative indices count from the end.\<close>

fun as_index :: "pyval \<Rightarrow> int option" where
  "as_index (PInt i) = Some i"
| "as_index (PBool b) = Some (if b then 1 else 0)"
| "as_index _ = None"

definition position :: "nat \<Rightarrow> int \<Rightarrow> nat option" where
  "position len i =
     (if 0 \<le> i \<and> i < int len then Some (nat i)
      else if i < 0 \<and> - int len \<le> i then Some (nat (int len + i))
      else None)"

definition list_item :: "'a list \<Rightarrow> int \<Rightarrow> py_error + 'a" where
  "list_item xs i =
     (case position (length xs) i of None \<Rightarrow> Inl IndexError | Some j \<Rightarrow> Inr (xs ! j))"

text \<open>\<^verbatim>\<open>x[k]\<close>.\<close>

fun subscr :: "pyval \<Rightarrow> pyval \<Rightarrow> py_error + pyval" where
  "subscr (PDict d) k = dict_item d k"
| "subscr (PList xs) k =
     (case as_index k of None \<Rightarrow> Inl TypeError | Some i \<Rightarrow> list_item xs i)"
| "subscr (PStr s) k =
     (case as_index k of None \<Rightarrow> Inl TypeError
      | Some i \<Rightarrow> andThen (list_item s i) (\<lambda>c. Inr (PStr [c])))"
| "subscr _ k = Inl TypeError"

text \<open>\<^verbatim>\<open>len(x)\<close>.\<close>

fun py_len :: "pyval \<Rightarrow> py_error + nat" where
  "py_len (PList xs) = Inr (length xs)"
| "py_len (PStr s) = Inr (length s)"
| "py_len (PDict d) = Inr (length d)"
| "py_len _ = Inl TypeError"

text \<open>\<^verbatim>\<open>for x in v\<close>: a dictionary yields its keys, a string its characters.\<close>

fun py_iter :: "pyval \<Rightarrow> py_error + pyval list" where
  "py_iter (PList xs) = Inr xs"
| "py_iter (PDict d) = Inr (map fst d)"
| "py_iter (PStr s) = Inr (map (\<lambda>c. PStr [c]) s)"
| "py_iter _ = Inl TypeError"

fun is_substring :: "string \<Rightarrow> string \<Rightarrow> bool" where
  "is_substring xs [] = (xs = [])"
| "is_substring xs (y # ys) = (take (length xs) (y # ys) = xs \<or> is_substring xs ys)"

text \<open>\<^verbatim>\<open>x in c\<close>.\<close>

fun py_in :: "pyval \<Rightarrow> pyval \<Rightarrow> py_error + bool" where
  "py_in x (PDict d) = dict_contains d x"
| "py_in x (PList xs) = Inr (list_ex (py_eq x) xs)"
| "py_in x (PStr s) = (case x of PStr t \<Rightarrow> Inr (is_substring t s) | _ \<Rightarrow> Inl TypeError)"
| "py_in x _ = Inl TypeError"

text \<open>\<^verbatim>\<open>x.get(k, default)\<close>: only a dictionary has the method.\<close>

fun py_get :: "pyval \<Rightarrow> pyval \<Rightarrow> pyval \<Rightarrow> py_error + pyval" where
  "py_get (PDict d) k dflt =
     (if hashable k
      then Inr (case dict_get d k of None \<Rightarrow> dflt | Some v \<Rightarrow> v)
      else Inl TypeError)"
| "py_get _ k dflt = Inl AttributeError"

subsection \<open>Floats\<close>

text \<open>\<^verbatim>\<open>round(x)\<close> of a float: to the nearest integer, a tie to the even one.\<close>

definition py_round :: "rat \<Rightarrow> int" where
  "py_round x =
     (let f = \<lfloor>x\<rfloor>; d = x - of_int f
      in if d < 1 / 2 then f
         else if 1 / 2 < d then f + 1
         else if even f then f else f + 1)"

text \<open>\<^verbatim>\<open>n.bit_length()\<close>: the number of binary digits of \<open>n\<close>.\<close>

fun bit_length :: "nat \<Rightarrow> nat" where
  "bit_length n = (if n = 0 then 0 else Suc (bit_length (n div 2)))"

declare bit_length.simps [simp del]

text \<open>
  The binary exponent of a positive rational \<open>q\<close>, which is the integer \<open>k\<close> with
  \<^verbatim>\<open>2^k <= q < 2^(k+1)\<close>; and the power of 2 with an integer exponent.
\<close>

definition floor_log2 :: "rat \<Rightarrow> int" where
  "floor_log2 q =
     (if 1 \<le> q then int (bit_length (nat \<lfloor>q\<rfloor>)) - 1
      else - int (bit_length (nat (\<lceil>1 / q\<rceil> - 1))))"

definition pow2 :: "int \<Rightarrow> rat" where
  "pow2 e = (if 0 \<le> e then 2 ^ nat e else 1 / 2 ^ nat (- e))"

text \<open>
  The rounding of binary64 arithmetic (round to nearest, ties to even). A double has
  53 significant bits, so that the doubles from \<^verbatim>\<open>2^k\<close> to \<^verbatim>\<open>2^(k+1)\<close> are the multiples
  of \<^verbatim>\<open>2^(k-52)\<close>; below \<^verbatim>\<open>2^-1022\<close> they are the multiples of \<^verbatim>\<open>2^-1074\<close>. The result
  is the nearest such multiple, the one with the even factor in a tie. (A result of
  \<^verbatim>\<open>2^1024\<close> or more would be an overflow; the operations below stay under it.)
\<close>

definition nearest_double :: "rat \<Rightarrow> rat" where
  "nearest_double q =
     (if q = 0 then 0
      else let u = pow2 (max (floor_log2 \<bar>q\<bar>) (- 1022) - 52)
           in of_int (py_round (q / u)) * u)"

subsection \<open>Arithmetic of the value fixups\<close>

text \<open>
  Converting an \<^verbatim>\<open>int\<close> to a \<^verbatim>\<open>float\<close> rounds it to the nearest double, and raises
  \<^verbatim>\<open>OverflowError\<close> when the integer rounds to a magnitude beyond the largest double.
\<close>

definition float_of :: "pyval \<Rightarrow> py_error + rat" where
  "float_of v =
     (case v of
        PFloat q \<Rightarrow> Inr q
      | PInt i \<Rightarrow>
          if \<bar>i\<bar> < 2 ^ 1024 - 2 ^ 970 then Inr (nearest_double (of_int i)) else Inl OverflowError
      | PBool b \<Rightarrow> Inr (if b then 1 else 0)
      | _ \<Rightarrow> Inl TypeError)"

text \<open>\<^verbatim>\<open>v / 100.0\<close>: the operand as a float, and the quotient of two floats.\<close>

definition div_100 :: "pyval \<Rightarrow> py_error + pyval" where
  "div_100 v = andThen (float_of v) (\<lambda>q. Inr (PFloat (nearest_double (q / 100))))"

text \<open>\<^verbatim>\<open>v > 1000\<close>: numbers only; an \<^verbatim>\<open>int\<close> and a \<^verbatim>\<open>float\<close> compare by value.\<close>

definition gt_1000 :: "pyval \<Rightarrow> py_error + bool" where
  "gt_1000 v = (case num_val v of None \<Rightarrow> Inl TypeError | Some x \<Rightarrow> Inr (1000 < x))"

text \<open>
  \<^verbatim>\<open>min(v, 3200) - 2500\<close>: \<^verbatim>\<open>min\<close> returns one of its arguments, the integer 3200 when
  it is the smaller. The difference of two integers is an integer; the difference of a
  float and 2500 is a float.
\<close>

definition battery_offset :: "pyval \<Rightarrow> rat option" where
  "battery_offset v =
     (case v of
        PFloat q \<Rightarrow> Some (if 3200 < q then 700 else nearest_double (q - 2500))
      | _ \<Rightarrow>
          (case num_val v of
             None \<Rightarrow> None
           | Some x \<Rightarrow> Some ((if 3200 < x then 3200 else x) - 2500)))"

text \<open>
  \<^verbatim>\<open>round((min(v, 3200) - 2500) / 7)\<close>, evaluated only after \<^verbatim>\<open>v > 1000\<close> held, so
  that \<open>v\<close> is a number and the operands are far inside the range of a double. The
  quotient by 7 is a float, whether the difference is an integer or a float.
\<close>

definition battery_percent :: "pyval \<Rightarrow> py_error + pyval" where
  "battery_percent v =
     (case battery_offset v of
        None \<Rightarrow> Inl TypeError
      | Some d \<Rightarrow> Inr (PInt (py_round (nearest_double (d / 7)))))"

subsection \<open>Text of a value inside an f-string\<close>

fun str_nat :: "nat \<Rightarrow> string" where
  "str_nat n =
     (if n < 10 then [''0123456789'' ! n]
      else str_nat (n div 10) @ [''0123456789'' ! (n mod 10)])"

declare str_nat.simps [simp del]

definition str_int :: "int \<Rightarrow> string" where
  "str_int i = (if i < 0 then CHR ''-'' # str_nat (nat (- i)) else str_nat (nat i))"

text \<open>
  \<^verbatim>\<open>str(v)\<close>. The text of a float or of a container is not modelled: it is taken
  from the parameter \<open>other\<close>.
\<close>

fun py_str :: "(pyval \<Rightarrow> string) \<Rightarrow> pyval \<Rightarrow> string" where
  "py_str other PNone = ''None''"
| "py_str other (PBool b) = (if b then ''True'' else ''False'')"
| "py_str other (PInt i) = str_int i"
| "py_str other (PStr s) = s"
| "py_str other v = other v"

text \<open>\<^verbatim>\<open>'0x' + v\<close>: only two strings concatenate.\<close>

definition prefix_0x :: "pyval \<Rightarrow> py_error + pyval" where
  "prefix_0x v = (case v of PStr s \<Rightarrow> Inr (PStr (''0x'' @ s)) | _ \<Rightarrow> Inl TypeError)"

text \<open>\<^verbatim>\<open>v + '...'\<close> with a string literal on the right.\<close>

definition str_add :: "pyval \<Rightarrow> string \<Rightarrow> py_error + pyval" where
  "str_add v t = (case v of PStr s \<Rightarrow> Inr (PStr (s @ t)) | _ \<Rightarrow> Inl TypeError)"

text \<open>
  \<^verbatim>\<open>v.replace(':', '').lower()\<close>: string methods, absent from every other value.
  Letters outside ASCII are left as they are.
\<close>

definition lower_char :: "char \<Rightarrow> char" where
  "lower_char c =
     (let n = (of_char c :: nat) in if 65 \<le> n \<and> n \<le> 90 then char_of (n + 32) else c)"

definition strip_colons_lower :: "pyval \<Rightarrow> py_error + pyval" where
  "strip_colons_lower v =
     (case v of
        PStr s \<Rightarrow> Inr (PStr (map lower_char (filter (\<lambda>c. c \<noteq> CHR '':'') s)))
      | _ \<Rightarrow> Inl AttributeError)"

text \<open>\<^verbatim>\<open>x[k] = v\<close>.\<close>

fun py_setitem :: "pyval \<Rightarrow> pyval \<Rightarrow> pyval \<Rightarrow> py_error + pyval" where
  "py_setitem (PDict d) k v = andThen (dict_store d k v) (\<lambda>d. Inr (PDict d))"
| "py_setitem (PList xs) k v =
     (case as_index k of
        None \<Rightarrow> Inl TypeError
      | Some i \<Rightarrow>
          (case position (length xs) i of
             None \<Rightarrow> Inl IndexError
           | Some j \<Rightarrow> Inr (PList (xs[j := v]))))"
| "py_setitem _ k v = Inl TypeError"

text \<open>
  \<^verbatim>\<open>x[n:]\<close> for a string or a list. On any other value the slice raises (which
  exception depends on the Python version; the caller catches every one).
\<close>

fun slice_from :: "pyval \<Rightarrow> nat \<Rightarrow> py_error + pyval" where
  "slice_from (PStr s) n = Inr (PStr (drop n s))"
| "slice_from (PList xs) n = Inr (PList (drop n xs))"
| "slice_from _ n = Inl TypeError"

section \<open>Collaborators outside the file\<close>

text \<open>
  \<^verbatim>\<open>gateway3.py\<close> imports its tables and decoders from modules that are not part of
  the verified source. They are parameters of the model:
  \<^item> \<open>GLOBAL_PROP\<close>: the dictionary \<^verbatim>\<open>utils.GLOBAL_PROP\<close>;
  \<^item> \<open>get_device\<close>: \<^verbatim>\<open>utils.get_device(model)\<close>, a descriptor dictionary or \<^verbatim>\<open>None\<close>;
  \<^item> \<open>parse_xiaomi_ble\<close>: \<^verbatim>\<open>utils.parse_xiaomi_ble(event)\<close>, a dictionary or \<^verbatim>\<open>None\<close>;
  \<^item> \<open>get_ble_domain\<close>: \<^verbatim>\<open>utils.get_ble_domain(key)\<close>;
  \<^item> \<open>json_loads\<close>: \<^verbatim>\<open>json.loads\<close> on a string;
  \<^item> \<open>format_other\<close>: the text \<^verbatim>\<open>str\<close> gives a float or a container.
\<close>

record ext =
  GLOBAL_PROP :: pydict
  get_device :: "pyval \<Rightarrow> py_error + pydict option"
  parse_xiaomi_ble :: "pyval \<Rightarrow> py_error + pydict option"
  get_ble_domain :: "pyval \<Rightarrow> py_error + pyval"
  json_loads :: "string \<Rightarrow> py_error + pyval"
  format_other :: "pyval \<Rightarrow> string"

section \<open>The gateway object\<close>

text \<open>
  The fields \<^verbatim>\<open>self.devices\<close>, \<^verbatim>\<open>self.updates\<close> and \<^verbatim>\<open>self.setups\<close> of \<^verbatim>\<open>Gateway3\<close>.
  The registry maps a key to a dictionary: a device record under its \<^verbatim>\<open>did\<close>, or a
  configured override under a \<^verbatim>\<open>mac\<close>. Update and setup handlers belong to the host
  framework; the model names a handler by a number and records each call, with its
  arguments, in \<open>calls\<close>. A handler is taken to return normally and to leave the three
  fields alone. \<^verbatim>\<open>self.mqtt.publish\<close> is recorded in the same way.
\<close>

datatype call =
    Update nat pydict
  | Setup nat pydict pyval
  | Publish string pyval

fun is_setup :: "call \<Rightarrow> bool" where
  "is_setup (Setup handler device attr) = True"
| "is_setup _ = False"

record gateway =
  devices :: "(pyval \<times> pydict) list"
  updates :: "(pyval \<times> nat list) list"
  setups :: "(pyval \<times> nat) list"
  calls :: "call list"

text \<open>
  How a method call ends: it returns, it raises, or it never returns because it polls
  \<^verbatim>\<open>while domain not in self.setups: time.sleep(1)\<close> for a registration that only
  another thread can make. The gateway is returned in every case, as the call left it.
\<close>

datatype outcome = Done | Raised py_error | Waiting

subsection \<open>\<^verbatim>\<open>Gateway3.add_update\<close> and \<^verbatim>\<open>Gateway3.add_setup\<close>\<close>

text \<open>\<^verbatim>\<open>self.updates.setdefault(did, []).append(handler)\<close>.\<close>

definition add_update :: "gateway \<Rightarrow> pyval \<Rightarrow> nat \<Rightarrow> outcome \<times> gateway" where
  "add_update gw did handler =
     (if hashable did
      then (Done, gw\<lparr>updates := dict_set (updates gw) did
                      ((case dict_get (updates gw) did of None \<Rightarrow> [] | Some hs \<Rightarrow> hs) @ [handler])\<rparr>)
      else (Raised TypeError, gw))"

text \<open>\<^verbatim>\<open>self.setups[domain] = handler\<close>.\<close>

definition add_setup :: "gateway \<Rightarrow> pyval \<Rightarrow> nat \<Rightarrow> outcome \<times> gateway" where
  "add_setup gw domain handler =
     (if hashable domain
      then (Done, gw\<lparr>setups := dict_set (setups gw) domain handler\<rparr>)
      else (Raised TypeError, gw))"

subsection \<open>\<^verbatim>\<open>Gateway3.setup_devices\<close>\<close>

text \<open>The loop \<^verbatim>\<open>for param in device['params']\<close> (lines 349 to 359).\<close>

fun setup_params :: "gateway \<Rightarrow> pydict \<Rightarrow> pyval list \<Rightarrow> outcome \<times> gateway" where
  "setup_params gw device [] = (Done, gw)"
| "setup_params gw device (param # rest) =
     (case subscr param (PInt 3) of
        Inl e \<Rightarrow> (Raised e, gw)
      | Inr domain \<Rightarrow>
          if \<not> truthy domain then setup_params gw device rest
          else
            (case dict_contains (setups gw) domain of
               Inl e \<Rightarrow> (Raised e, gw)
             | Inr False \<Rightarrow> (Waiting, gw)
             | Inr True \<Rightarrow>
                 (case andThen (subscr param (PInt 2))
                         (\<lambda>attr. andThen (dict_item (setups gw) domain)
                         (\<lambda>handler. Inr (Setup handler device attr))) of
                    Inl e \<Rightarrow> (Raised e, gw)
                  | Inr c \<Rightarrow> setup_params (gw\<lparr>calls := calls gw @ [c]\<rparr>) device rest)))"

text \<open>
  Lines 333 to 347 for one device: the catalog lookup, the two \<^verbatim>\<open>update\<close> calls and
  the key under which the record is stored. \<open>None\<close> is the \<^verbatim>\<open>continue\<close> of an
  unsupported model.
\<close>

definition merge_device ::
  "ext \<Rightarrow> gateway \<Rightarrow> pydict \<Rightarrow> py_error + (pyval \<times> pydict) option" where
  "merge_device ext gw device =
     andThen (dict_item device (PStr ''model'')) (\<lambda>model.
     andThen (get_device ext model) (\<lambda>desc.
       case desc of
         None \<Rightarrow> Inr None
       | Some desc \<Rightarrow>
           if desc = [] then Inr None
           else
             let device = dict_update device desc in
             andThen (dict_item device (PStr ''mac'')) (\<lambda>mac.
             if \<not> hashable mac then Inl TypeError
             else
               let device =
                 (case dict_get (devices gw) mac of
                    None \<Rightarrow> device
                  | Some default_config \<Rightarrow>
                      if default_config = [] then device
                      else dict_update device default_config)
               in andThen (dict_item device (PStr ''did'')) (\<lambda>did.
                  if hashable did then Inr (Some (did, device)) else Inl TypeError))))"

fun setup_devices :: "ext \<Rightarrow> gateway \<Rightarrow> pyval list \<Rightarrow> outcome \<times> gateway" where
  "setup_devices ext gw [] = (Done, gw)"
| "setup_devices ext gw (PDict device # rest) =
     (case merge_device ext gw device of
        Inl e \<Rightarrow> (Raised e, gw)
      | Inr None \<Rightarrow> setup_devices ext gw rest
      | Inr (Some (did, device)) \<Rightarrow>
          let gw = gw\<lparr>devices := dict_set (devices gw) did device\<rparr> in
          (case andThen (dict_item device (PStr ''params'')) py_iter of
             Inl e \<Rightarrow> (Raised e, gw)
           | Inr params \<Rightarrow>
               (case setup_params gw device params of
                  (Done, gw) \<Rightarrow> setup_devices ext gw rest
                | (stop, gw) \<Rightarrow> (stop, gw))))"
| "setup_devices ext gw (device # rest) = (Raised TypeError, gw)"

subsection \<open>\<^verbatim>\<open>Gateway3.process_message\<close>\<close>

text \<open>
  Lines 362 to 373: the branch on \<^verbatim>\<open>data['cmd']\<close> chooses the dictionary that holds
  the parameters and the key \<^verbatim>\<open>pkey\<close> under which they are listed. The last branch
  is \<^verbatim>\<open>raise NotImplemented(...)\<close>; \<^verbatim>\<open>NotImplemented\<close> is a constant and not an
  exception class, so that calling it raises \<^verbatim>\<open>TypeError\<close>.
\<close>

definition select_params :: "pyval \<Rightarrow> py_error + pyval \<times> pyval" where
  "select_params data =
     andThen (subscr data (PStr ''cmd'')) (\<lambda>cmd.
       if py_eq cmd (PStr ''heartbeat'') then
         andThen (subscr data (PStr ''params'')) (\<lambda>params.
         andThen (py_len params) (\<lambda>n.
           if n \<noteq> 1 then Inl AssertionError
           else andThen (subscr params (PInt 0)) (\<lambda>item. Inr (item, PStr ''res_list''))))
       else if py_eq cmd (PStr ''report'') then
         andThen (py_in (PStr ''params'') data) (\<lambda>present.
           Inr (data, if present then PStr ''params'' else PStr ''mi_spec''))
       else if py_eq cmd (PStr ''write_rsp'') then Inr (data, PStr ''results'')
       else Inl TypeError)"

text \<open>Lines 389 and 390: the wire name of one parameter entry.\<close>

definition wire_name :: "ext \<Rightarrow> pyval \<Rightarrow> py_error + pyval" where
  "wire_name ext param =
     andThen (py_in (PStr ''res_name'') param) (\<lambda>present.
       if present then subscr param (PStr ''res_name'')
       else
         andThen (subscr param (PStr ''siid'')) (\<lambda>siid.
         andThen (subscr param (PStr ''piid'')) (\<lambda>piid.
           Inr (PStr (py_str (format_other ext) siid @ ''.'' @ py_str (format_other ext) piid)))))"

text \<open>
  \<^verbatim>\<open>next((p[2] for p in device['params'] if p[0] == prop), prop)\<close>: the canonical
  name of the first descriptor whose wire name is \<open>prop\<close>, if there is one.
\<close>

fun find_name :: "pyval list \<Rightarrow> pyval \<Rightarrow> py_error + pyval option" where
  "find_name [] prop = Inr None"
| "find_name (p # ps) prop =
     andThen (subscr p (PInt 0)) (\<lambda>wire.
       if py_eq wire prop then andThen (subscr p (PInt 2)) (\<lambda>name. Inr (Some name))
       else find_name ps prop)"

text \<open>Lines 392 to 396: from the wire name to the canonical name.\<close>

definition resolve_prop :: "ext \<Rightarrow> pydict \<Rightarrow> pyval \<Rightarrow> py_error + pyval" where
  "resolve_prop ext device prop =
     andThen (dict_contains (GLOBAL_PROP ext) prop) (\<lambda>global.
       if global then dict_item (GLOBAL_PROP ext) prop
       else
         andThen (dict_item device (PStr ''params'')) (\<lambda>params.
         andThen (py_iter params) (\<lambda>params.
         andThen (find_name params prop) (\<lambda>found.
           Inr (case found of None \<Rightarrow> prop | Some name \<Rightarrow> name)))))"

text \<open>Lines 398 to 403: the value stored under the canonical name.\<close>

definition fix_value :: "pyval \<Rightarrow> pyval \<Rightarrow> py_error + pyval" where
  "fix_value prop param =
     (if py_eq prop (PStr ''temperature'') \<or> py_eq prop (PStr ''humidity'') then
        andThen (subscr param (PStr ''value'')) div_100
      else
        andThen
          (if py_eq prop (PStr ''battery'')
           then andThen (subscr param (PStr ''value'')) gt_1000
           else Inr False)
          (\<lambda>millivolts.
             if millivolts then andThen (subscr param (PStr ''value'')) battery_percent
             else subscr param (PStr ''value'')))"

text \<open>Lines 389 to 396 together: the canonical name of one parameter entry.\<close>

definition canonical_name :: "ext \<Rightarrow> pydict \<Rightarrow> pyval \<Rightarrow> py_error + pyval" where
  "canonical_name ext device param =
     andThen (wire_name ext param) (resolve_prop ext device)"

text \<open>
  Lines 386 to 403 for one entry of \<^verbatim>\<open>data[pkey]\<close>: \<open>None\<close> is the \<^verbatim>\<open>continue\<close> of an
  entry with an error code, otherwise the key and the value of the assignment
  \<^verbatim>\<open>payload[prop] = ...\<close>.
\<close>

definition convert_param :: "ext \<Rightarrow> pydict \<Rightarrow> pyval \<Rightarrow> py_error + (pyval \<times> pyval) option" where
  "convert_param ext device param =
     andThen (py_get param (PStr ''error_code'') (PInt 0)) (\<lambda>error_code.
       if \<not> py_eq error_code (PInt 0) then Inr None
       else
         andThen (canonical_name ext device param) (\<lambda>prop.
         andThen (fix_value prop param) (\<lambda>v.
           Inr (Some (prop, v)))))"

text \<open>
  An entry that the loop does not skip: \<^verbatim>\<open>param.get('error_code', 0)\<close> is zero, which
  it is when the key is absent.
\<close>

definition accepted :: "pyval \<Rightarrow> bool" where
  "accepted param =
     (case py_get param (PStr ''error_code'') (PInt 0) of
        Inl e \<Rightarrow> False
      | Inr error_code \<Rightarrow> py_eq error_code (PInt 0))"

text \<open>The loop \<^verbatim>\<open>for param in data[pkey]\<close> (lines 385 to 403), from a given payload.\<close>

fun convert_params :: "ext \<Rightarrow> pydict \<Rightarrow> pyval list \<Rightarrow> pydict \<Rightarrow> py_error + pydict" where
  "convert_params ext device [] payload = Inr payload"
| "convert_params ext device (param # rest) payload =
     andThen (convert_param ext device param) (\<lambda>entry.
       case entry of
         None \<Rightarrow> convert_params ext device rest payload
       | Some (prop, v) \<Rightarrow>
           andThen (dict_store payload prop v) (convert_params ext device rest))"

text \<open>
  Lines 381 to 406: the device record, the payload of the message, and the two keys
  that the debug line formats (an f-string is evaluated whatever the log level).
\<close>

definition build_payload :: "ext \<Rightarrow> gateway \<Rightarrow> pyval \<Rightarrow> pyval \<Rightarrow> pyval \<Rightarrow> py_error + pydict" where
  "build_payload ext gw data pkey did =
     andThen (dict_item (devices gw) did) (\<lambda>device.
     andThen (subscr data pkey) (\<lambda>params.
     andThen (py_iter params) (\<lambda>params.
     andThen (convert_params ext device params []) (\<lambda>payload.
     andThen (dict_item device (PStr ''did'')) (\<lambda>_.
     andThen (dict_item device (PStr ''model'')) (\<lambda>_.
       Inr payload))))))"

text \<open>Lines 411 to 416: a device that the hub reports as added is set up at once.\<close>

definition added_device :: "ext \<Rightarrow> gateway \<Rightarrow> pydict \<Rightarrow> outcome \<times> gateway" where
  "added_device ext gw payload =
     (if dict_has payload (PStr ''added_device'') then
        (case andThen (dict_item payload (PStr ''added_device'')) (\<lambda>device.
              andThen (subscr device (PStr ''mac'')) (\<lambda>mac.
              andThen (prefix_0x mac) (\<lambda>mac.
                case device of
                  PDict d \<Rightarrow> Inr (PDict (dict_set d (PStr ''mac'') mac))
                | _ \<Rightarrow> Inl TypeError))) of
           Inl e \<Rightarrow> (Raised e, gw)
         | Inr device \<Rightarrow> setup_devices ext gw [device])
      else (Done, gw))"

text \<open>Lines 375 to 416: the message once \<^verbatim>\<open>data\<close> and \<^verbatim>\<open>pkey\<close> are chosen.\<close>

definition dispatch_params :: "ext \<Rightarrow> gateway \<Rightarrow> pyval \<Rightarrow> pyval \<Rightarrow> outcome \<times> gateway" where
  "dispatch_params ext gw data pkey =
     (case andThen (subscr data (PStr ''did''))
             (\<lambda>did. andThen (dict_contains (updates gw) did) (\<lambda>known. Inr (did, known))) of
        Inl e \<Rightarrow> (Raised e, gw)
      | Inr (did, False) \<Rightarrow> (Done, gw)
      | Inr (did, True) \<Rightarrow>
          (case andThen (build_payload ext gw data pkey did) (\<lambda>payload.
                andThen (dict_item (updates gw) did) (\<lambda>handlers.
                  Inr (payload, handlers))) of
             Inl e \<Rightarrow> (Raised e, gw)
           | Inr (payload, handlers) \<Rightarrow>
               added_device ext
                 (gw\<lparr>calls := calls gw @ map (\<lambda>handler. Update handler payload) handlers\<rparr>)
                 payload))"

definition process_message :: "ext \<Rightarrow> gateway \<Rightarrow> pyval \<Rightarrow> outcome \<times> gateway" where
  "process_message ext gw data =
     (case select_params data of
        Inl e \<Rightarrow> (Raised e, gw)
      | Inr (data, pkey) \<Rightarrow> dispatch_params ext gw data pkey)"

subsection \<open>\<^verbatim>\<open>Gateway3.send\<close>\<close>

text \<open>
  \<^verbatim>\<open>next(p[0] for p in device['params'] if p[2] == param)\<close>: the wire name of the
  first descriptor whose canonical name is \<open>param\<close>; \<^verbatim>\<open>next\<close> has no default here.
\<close>

fun find_wire :: "pyval list \<Rightarrow> pyval \<Rightarrow> py_error + pyval" where
  "find_wire [] param = Inl StopIteration"
| "find_wire (p # ps) param =
     andThen (subscr p (PInt 2)) (\<lambda>name.
       if py_eq name param then subscr p (PInt 0) else find_wire ps param)"

text \<open>The command that \<^verbatim>\<open>send\<close> builds (lines 471 to 479).\<close>

definition write_command :: "pyval \<Rightarrow> pyval \<Rightarrow> pyval \<Rightarrow> py_error + pyval" where
  "write_command device param v =
     andThen (subscr device (PStr ''params'')) (\<lambda>params.
     andThen (py_iter params) (\<lambda>params.
     andThen (find_wire params param) (\<lambda>prop.
     andThen (subscr device (PStr ''did'')) (\<lambda>did.
     andThen (subscr device (PStr ''model'')) (\<lambda>_.
       Inr (PDict
         [(PStr ''cmd'', PStr ''write''),
          (PStr ''did'', did),
          (PStr ''params'', PList [PDict [(PStr ''res_name'', prop), (PStr ''value'', v)]])]))))))"

definition send :: "gateway \<Rightarrow> pyval \<Rightarrow> pyval \<Rightarrow> pyval \<Rightarrow> outcome \<times> gateway" where
  "send gw device param v =
     (case write_command device param v of
        Inl e \<Rightarrow> (Raised e, gw)
      | Inr payload \<Rightarrow> (Done, gw\<lparr>calls := calls gw @ [Publish ''zigbee/recv'' payload]\<rparr>))"

subsection \<open>\<^verbatim>\<open>Gateway3.process_bluetooth\<close>\<close>

text \<open>
  Lines 429 to 438: the record of the advertising device, created on first sighting.
  The new dictionary is stored in the registry and then given its empty \<^verbatim>\<open>init\<close>;
  both names refer to one object, so the registry holds the finished record.
\<close>

definition ble_device :: "gateway \<Rightarrow> pyval \<Rightarrow> py_error + pyval \<times> pydict \<times> gateway" where
  "ble_device gw data =
     andThen (subscr data (PStr ''dev'')) (\<lambda>dev.
     andThen (subscr dev (PStr ''did'')) (\<lambda>did.
     andThen (dict_contains (devices gw) did) (\<lambda>known.
       if \<not> known then
         andThen (subscr dev (PStr ''mac'')) (\<lambda>mac.
         andThen (strip_colons_lower mac) (\<lambda>mac.
           let device =
             [(PStr ''did'', did), (PStr ''mac'', mac), (PStr ''device_name'', PStr ''BLE''),
              (PStr ''init'', PDict [])]
           in Inr (did, device, gw\<lparr>devices := dict_set (devices gw) did device\<rparr>)))
       else andThen (dict_item (devices gw) did) (\<lambda>device. Inr (did, device, gw)))))"

text \<open>
  The loop \<^verbatim>\<open>for k in payload.keys()\<close> (lines 449 to 463), over the items of the
  payload. \<open>device\<close> is the record as it stands; each change of it is a change of the
  registry entry, which is the same object.
\<close>

fun ble_keys ::
  "ext \<Rightarrow> gateway \<Rightarrow> pyval \<Rightarrow> pydict \<Rightarrow> pydict \<Rightarrow> outcome \<times> gateway \<times> pydict" where
  "ble_keys ext gw did device [] = (Done, gw, device)"
| "ble_keys ext gw did device ((k, v) # items) =
     (case andThen (dict_item device (PStr ''init'')) (\<lambda>init.
           andThen (py_in k init) (\<lambda>seen. Inr (init, seen))) of
        Inl e \<Rightarrow> (Raised e, gw, device)
      | Inr (init, True) \<Rightarrow> ble_keys ext gw did device items
      | Inr (init, False) \<Rightarrow>
          (case py_setitem init k v of
             Inl e \<Rightarrow> (Raised e, gw, device)
           | Inr init \<Rightarrow>
               let device = dict_set device (PStr ''init'') init;
                   gw = gw\<lparr>devices := dict_set (devices gw) did device\<rparr>
               in
               (case get_ble_domain ext k of
                  Inl e \<Rightarrow> (Raised e, gw, device)
                | Inr domain \<Rightarrow>
                    if \<not> truthy domain then ble_keys ext gw did device items
                    else
                      (case dict_contains (setups gw) domain of
                         Inl e \<Rightarrow> (Raised e, gw, device)
                       | Inr False \<Rightarrow> (Waiting, gw, device)
                       | Inr True \<Rightarrow>
                           (case dict_item (setups gw) domain of
                              Inl e \<Rightarrow> (Raised e, gw, device)
                            | Inr handler \<Rightarrow>
                                ble_keys ext (gw\<lparr>calls := calls gw @ [Setup handler device k]\<rparr>)
                                  did device items)))))"

text \<open>Lines 465 to 467.\<close>

definition notify :: "gateway \<Rightarrow> pyval \<Rightarrow> pydict \<Rightarrow> outcome \<times> gateway" where
  "notify gw did payload =
     (case dict_get (updates gw) did of
        None \<Rightarrow> (Done, gw)
      | Some handlers \<Rightarrow>
          (Done, gw\<lparr>calls := calls gw @ map (\<lambda>handler. Update handler payload) handlers\<rparr>))"

definition process_bluetooth :: "ext \<Rightarrow> gateway \<Rightarrow> string \<Rightarrow> outcome \<times> gateway" where
  "process_bluetooth ext gw raw =
     (if \<not> is_substring ''_async.ble_event'' raw then (Done, gw)
      else
        (case andThen (json_loads ext (drop 10 raw)) (\<lambda>msg.
              andThen (subscr msg (PStr ''params'')) (\<lambda>data.
              andThen (ble_device gw data) (\<lambda>found. Inr (data, found)))) of
           Inl e \<Rightarrow> (Raised e, gw)
         | Inr (data, did, device, gw) \<Rightarrow>
             (case andThen (subscr data (PStr ''evt'')) (\<lambda>evt.
                   andThen (py_len evt) (\<lambda>n.
                     if n \<noteq> 1 then Inl AssertionError
                     else andThen (subscr evt (PInt 0)) (parse_xiaomi_ble ext))) of
                Inl e \<Rightarrow> (Raised e, gw)
              | Inr None \<Rightarrow> (Done, gw)
              | Inr (Some payload) \<Rightarrow>
                  (case ble_keys ext gw did device payload of
                     (Done, gw, device) \<Rightarrow> notify gw did payload
                   | (stop, gw, device) \<Rightarrow> (stop, gw)))))"

section \<open>Discovery\<close>

text \<open>\<^verbatim>\<open>json.loads(v)\<close> for a value read from a dictionary.\<close>

definition loads :: "ext \<Rightarrow> pyval \<Rightarrow> py_error + pyval" where
  "loads ext v = (case v of PStr s \<Rightarrow> json_loads ext s | _ \<Rightarrow> Inl TypeError)"

subsection \<open>\<^verbatim>\<open>Gateway3._get_devices_v3\<close>: the database strategy\<close>

text \<open>
  Lines 225 to 229: the comprehension
  \<^verbatim>\<open>{p[2]: retain.get(p[1]) for p in desc['params'] if p[1] is not None}\<close>.
\<close>

fun collect_retained :: "pyval \<Rightarrow> pyval list \<Rightarrow> pydict \<Rightarrow> py_error + pydict" where
  "collect_retained retain [] params = Inr params"
| "collect_retained retain (p # ps) params =
     andThen (subscr p (PInt 1)) (\<lambda>key.
       if key = PNone then collect_retained retain ps params
       else
         andThen (subscr p (PInt 2)) (\<lambda>name.
         andThen (py_get retain key PNone) (\<lambda>v.
         andThen (dict_store params name v) (\<lambda>params.
           collect_retained retain ps params))))"

text \<open>
  Lines 233 to 240: the value that the fixup stores for the item \<open>(k, v)\<close> (\<open>v\<close>
  itself where no branch assigns).
\<close>

definition fix_retained :: "pyval \<Rightarrow> pyval \<Rightarrow> py_error + pyval" where
  "fix_retained k v =
     (if py_eq k (PStr ''temperature'') \<or> py_eq k (PStr ''humidity'') then div_100 v
      else if py_eq v (PStr ''on'') \<or> py_eq v (PStr ''open'') then Inr (PInt 1)
      else if py_eq v (PStr ''off'') \<or> py_eq v (PStr ''close'') then Inr (PInt 0)
      else
        andThen (if py_eq k (PStr ''battery'') \<and> truthy v then gt_1000 v else Inr False)
          (\<lambda>millivolts. if millivolts then battery_percent v else Inr v))"

text \<open>The loop \<^verbatim>\<open>for k, v in params.items()\<close> (lines 232 to 240).\<close>

fun fix_params :: "pydict \<Rightarrow> pydict \<Rightarrow> py_error + pydict" where
  "fix_params [] params = Inr params"
| "fix_params ((k, v) # items) params =
     andThen (fix_retained k v) (\<lambda>v. fix_params items (dict_set params k v))"

text \<open>
  Lines 216 to 249, the body of the loop over \<^verbatim>\<open>dev_list\<close>: the descriptor of one
  device, or \<open>None\<close> for a model that the catalog does not know.
\<close>

definition read_device :: "ext \<Rightarrow> pydict \<Rightarrow> pyval \<Rightarrow> py_error + pyval option" where
  "read_device ext data did =
     andThen (str_add did ''.model'') (\<lambda>key.
     andThen (dict_item data key) (\<lambda>model.
     andThen (get_device ext model) (\<lambda>desc.
       case desc of
         None \<Rightarrow> Inr None
       | Some desc \<Rightarrow>
           andThen (str_add did ''.prop'') (\<lambda>key.
           andThen (dict_item data key) (\<lambda>blob.
           andThen (loads ext blob) (\<lambda>blob.
           andThen (subscr blob (PStr ''props'')) (\<lambda>retain.
           andThen (dict_item desc (PStr ''params'')) (\<lambda>specs.
           andThen (py_iter specs) (\<lambda>specs.
           andThen (collect_retained retain specs []) (\<lambda>params.
           andThen (fix_params params params) (\<lambda>params.
           andThen (str_add did ''.mac'') (\<lambda>key.
           andThen (dict_item data key) (\<lambda>mac.
           andThen (prefix_0x mac) (\<lambda>mac.
           andThen (str_add did ''.version'') (\<lambda>key.
           andThen (dict_item data key) (\<lambda>version.
             Inr (Some (PDict
               [(PStr ''did'', did),
                (PStr ''mac'', mac),
                (PStr ''model'', model),
                (PStr ''zb_ver'', version),
                (PStr ''init'', PDict params)]))))))))))))))))))"

fun read_devices :: "ext \<Rightarrow> pydict \<Rightarrow> pyval list \<Rightarrow> py_error + pyval list" where
  "read_devices ext data [] = Inr []"
| "read_devices ext data (did # dids) =
     andThen (read_device ext data did) (\<lambda>device.
     andThen (read_devices ext data dids) (\<lambda>devs.
       Inr (case device of None \<Rightarrow> devs | Some device \<Rightarrow> device # devs)))"

text \<open>
  The telnet session is outside the model. \<open>db\<close> is what lines 201 to 211 produce:
  the dictionary that \<^verbatim>\<open>Unqlite(raw).read_all()\<close> returns, or the exception of a
  failed step. \<open>coordinator\<close> is the reply to \<^verbatim>\<open>cat /data/zigbee/coordinator.info\<close>
  (lines 251 to 253), prompt included. The \<^verbatim>\<open>except Exception\<close> of line 264 turns
  every exception into the result \<^verbatim>\<open>None\<close>.
\<close>

definition get_devices_v3 ::
  "ext \<Rightarrow> py_error + pydict \<Rightarrow> py_error + string \<Rightarrow> pyval list option" where
  "get_devices_v3 ext db coordinator =
     (case
        andThen db (\<lambda>data.
        andThen (dict_item data (PStr ''dev_list'')) (\<lambda>dev_list.
        andThen (loads ext dev_list) (\<lambda>dids.
        andThen (py_iter dids) (\<lambda>dids.
        andThen (read_devices ext data dids) (\<lambda>devs.
        andThen coordinator (\<lambda>raw.
        andThen (json_loads ext (take (length raw - 2) raw)) (\<lambda>device.
        andThen (subscr device (PStr ''mac'')) (\<lambda>mac.
          Inr (PDict
                 [(PStr ''did'', PStr ''lumi.0''),
                  (PStr ''model'', PStr ''lumi.gateway.mgl03''),
                  (PStr ''mac'', mac)] # devs)))))))))
      of Inl e \<Rightarrow> None | Inr devs \<Rightarrow> Some devs)"

subsection \<open>\<^verbatim>\<open>Gateway3._get_devices_v1\<close>: the live strategy\<close>

text \<open>
  The miio client is outside the model. \<open>pages i\<close> is the reply to the \<open>i\<close>-th
  \<^verbatim>\<open>get_device_list\<close> command of the call (counted from 0), or the exception it ends
  with after its retries.
\<close>

text \<open>Lines 98 to 103: the stubs of one page, stored under \<^verbatim>\<open>item['num']\<close>.\<close>

fun store_items :: "(pyval \<Rightarrow> string) \<Rightarrow> pyval list \<Rightarrow> pydict \<Rightarrow> py_error + pydict" where
  "store_items other [] devs = Inr devs"
| "store_items other (item # part) devs =
     andThen (subscr item (PStr ''num'')) (\<lambda>num.
     andThen (subscr item (PStr ''did'')) (\<lambda>did.
     andThen (slice_from did 5) (\<lambda>tail.
     andThen (subscr item (PStr ''model'')) (\<lambda>model.
     andThen (dict_store devs num
                (PDict [(PStr ''did'', did),
                        (PStr ''mac'', PStr (''0x'' @ py_str other tail)),
                        (PStr ''model'', model)])) (\<lambda>devs.
       store_items other part devs)))))"

text \<open>How the page loop ends: by \<^verbatim>\<open>return []\<close>, or with the stubs collected.\<close>

datatype pages_end = Empty_page | Collected pydict

text \<open>
  Lines 92 to 106: \<^verbatim>\<open>for _ in range(16)\<close>. \<open>k\<close> iterations are left, \<open>i\<close> commands
  have been sent. The result carries the number of commands sent when the loop ends.
\<close>

fun load_pages ::
  "(pyval \<Rightarrow> string) \<Rightarrow> (nat \<Rightarrow> py_error + pyval) \<Rightarrow> nat \<Rightarrow> nat \<Rightarrow> pydict
     \<Rightarrow> (py_error + pages_end) \<times> nat" where
  "load_pages other pages 0 i devs = (Inr (Collected devs), i)"
| "load_pages other pages (Suc k) i devs =
     (case pages i of
        Inl e \<Rightarrow> (Inl e, Suc i)
      | Inr part \<Rightarrow>
          (case py_len part of
             Inl e \<Rightarrow> (Inl e, Suc i)
           | Inr n \<Rightarrow>
               if n = 0 then (Inr Empty_page, Suc i)
               else
                 (case andThen (py_iter part) (\<lambda>items.
                       andThen (store_items other items devs) (\<lambda>devs.
                       andThen (subscr part (PInt 0)) (\<lambda>first.
                       andThen (subscr first (PStr ''total'')) (\<lambda>total.
                         Inr (devs, py_eq total (PInt (int (length devs)))))))) of
                    Inl e \<Rightarrow> (Inl e, Suc i)
                  | Inr (devs, True) \<Rightarrow> (Inr (Collected devs), Suc i)
                  | Inr (devs, False) \<Rightarrow> load_pages other pages k (Suc i) devs)))"

text \<open>
  Lines 115 and 123: \<^verbatim>\<open>[p[1] for p in desc['params'] if p[1] is not None]\<close> and the same
  comprehension with \<^verbatim>\<open>p[2]\<close>.
\<close>

fun retained_keys :: "pyval list \<Rightarrow> py_error + pyval list" where
  "retained_keys [] = Inr []"
| "retained_keys (p # ps) =
     andThen (subscr p (PInt 1)) (\<lambda>key.
     andThen (retained_keys ps) (\<lambda>keys. Inr (if key = PNone then keys else key # keys)))"

fun retained_names :: "pyval list \<Rightarrow> py_error + pyval list" where
  "retained_names [] = Inr []"
| "retained_names (p # ps) =
     andThen (subscr p (PInt 1)) (\<lambda>key.
       if key = PNone then retained_names ps
       else
         andThen (subscr p (PInt 2)) (\<lambda>name.
         andThen (retained_names ps) (\<lambda>names. Inr (name # names))))"

text \<open>\<^verbatim>\<open>dict(pairs)\<close>.\<close>

fun dict_of :: "(pyval \<times> pyval) list \<Rightarrow> pydict \<Rightarrow> py_error + pydict" where
  "dict_of [] d = Inr d"
| "dict_of ((k, v) # kvs) d = andThen (dict_store d k v) (dict_of kvs)"

text \<open>Lines 127 to 133: the fixup of the live strategy (no battery branch).\<close>

definition fix_live :: "pyval \<Rightarrow> pyval \<Rightarrow> py_error + pyval" where
  "fix_live k v =
     (if py_eq k (PStr ''temperature'') \<or> py_eq k (PStr ''humidity'') then div_100 v
      else if py_eq v (PStr ''on'') \<or> py_eq v (PStr ''open'') then Inr (PInt 1)
      else if py_eq v (PStr ''off'') \<or> py_eq v (PStr ''close'') then Inr (PInt 0)
      else Inr v)"

fun fix_live_params :: "pydict \<Rightarrow> pydict \<Rightarrow> py_error + pydict" where
  "fix_live_params [] params = Inr params"
| "fix_live_params ((k, v) # items) params =
     andThen (fix_live k v) (\<lambda>v. fix_live_params items (dict_set params k v))"

text \<open>
  Lines 110 to 135 for one stub. \<open>props args\<close> is the reply to
  \<^verbatim>\<open>get_device_prop\<close> with the arguments \<open>args\<close>, or its exception.
\<close>

definition load_init ::
  "ext \<Rightarrow> (pyval list \<Rightarrow> py_error + pyval) \<Rightarrow> pydict \<Rightarrow> py_error + pydict" where
  "load_init ext props device =
     andThen (dict_item device (PStr ''model'')) (\<lambda>model.
     andThen (get_device ext model) (\<lambda>desc.
       case desc of
         None \<Rightarrow> Inr device
       | Some desc \<Rightarrow>
           andThen (dict_item desc (PStr ''params'')) (\<lambda>specs.
           andThen (py_iter specs) (\<lambda>specs.
           andThen (retained_keys specs) (\<lambda>keys.
             if keys = [] then Inr device
             else
               andThen (dict_item device (PStr ''did'')) (\<lambda>did.
               andThen (props (did # keys)) (\<lambda>reply.
               andThen (retained_names specs) (\<lambda>names.
               andThen (py_iter reply) (\<lambda>vals.
               andThen (dict_of (zip names vals) []) (\<lambda>data.
               andThen (fix_live_params data data) (\<lambda>data.
                 Inr (dict_set device (PStr ''init'') (PDict data)))))))))))))"

fun load_inits ::
  "ext \<Rightarrow> (pyval list \<Rightarrow> py_error + pyval) \<Rightarrow> pyval list \<Rightarrow> py_error + pyval list" where
  "load_inits ext props [] = Inr []"
| "load_inits ext props (PDict device # rest) =
     andThen (load_init ext props device) (\<lambda>device.
     andThen (load_inits ext props rest) (\<lambda>rest. Inr (PDict device # rest)))"
| "load_inits ext props (device # rest) = Inl TypeError"

text \<open>
  \<open>info\<close> is \<^verbatim>\<open>mac_address\<close> and \<^verbatim>\<open>model\<close> of \<^verbatim>\<open>self.miio.info()\<close>, or its exception.
  The result is paired with the number of \<^verbatim>\<open>get_device_list\<close> commands sent.
\<close>

definition get_devices_v1 ::
  "ext \<Rightarrow> (nat \<Rightarrow> py_error + pyval) \<Rightarrow> (pyval list \<Rightarrow> py_error + pyval)
     \<Rightarrow> py_error + pyval \<times> pyval \<Rightarrow> pyval list option \<times> nat" where
  "get_devices_v1 ext pages props info =
     (case load_pages (format_other ext) pages 16 0 [] of
        (Inl e, sent) \<Rightarrow> (None, sent)
      | (Inr Empty_page, sent) \<Rightarrow> (Some [], sent)
      | (Inr (Collected devs), sent) \<Rightarrow>
          (case
             andThen (load_inits ext props (map snd devs)) (\<lambda>devs.
             andThen info (\<lambda>(mac, model).
               Inr (devs @
                 [PDict [(PStr ''did'', PStr ''lumi.0''),
                         (PStr ''mac'', mac),
                         (PStr ''model'', model)]])))
           of Inl e \<Rightarrow> (None, sent) | Inr devs \<Rightarrow> (Some devs, sent)))"

section \<open>Shape of the catalog descriptors\<close>

text \<open>
  The catalog lists a parameter as \<^verbatim>\<open>[wire name, hub property key, canonical name,
  domain]\<close>. The code reads the positions 0 to 3 and never checks the shape; the
  theorems that need it assume it.
\<close>

fun descriptor :: "pyval \<Rightarrow> bool" where
  "descriptor (PList (wire # key # name # rest)) = True"
| "descriptor _ = False"

section \<open>The name resolution in the words of the specification\<close>

text \<open>
  The specification describes a parameterSpec as a sequence of tuples
  \<open>(wireName, hubPropertyKey, canonicalName, domainHint)\<close>, which the catalog stores as
  lists of four elements, and the resolution of a wire name as: \<^emph>\<open>first via a small
  fixed table of global properties, else by matching against the device's
  parameterSpec wire names, falling back to the raw wire name if unmatched\<close>.
  \<open>spec_resolve\<close> is that description; the theorems compare \<open>resolve_prop\<close> with it.
\<close>

type_synonym parameter = "pyval \<times> pyval \<times> pyval \<times> pyval"

definition encode_spec :: "parameter \<Rightarrow> pyval" where
  "encode_spec p = (case p of (wire, key, name, domain) \<Rightarrow> PList [wire, key, name, domain])"

definition spec_resolve :: "pydict \<Rightarrow> parameter list \<Rightarrow> pyval \<Rightarrow> pyval" where
  "spec_resolve table parameterSpec wire =
     (case dict_get table wire of
        Some name \<Rightarrow> name
      | None \<Rightarrow>
          (case find (\<lambda>(w, key, name, domain). py_eq w wire) parameterSpec of
             Some (w, key, name, domain) \<Rightarrow> name
           | None \<Rightarrow> wire))"

section \<open>The bus message in the words of the specification\<close>

text \<open>
  The specification describes the envelope of a bus message: \<^emph>\<open>\<^verbatim>\<open>cmd = "heartbeat"\<close>
  requires exactly one element in its parameter list and reads its properties from
  field \<^verbatim>\<open>res_list\<close>. \<^verbatim>\<open>cmd = "report"\<close> reads from \<^verbatim>\<open>params\<close> if present, else
  \<^verbatim>\<open>mi_spec\<close>. \<^verbatim>\<open>cmd = "write_rsp"\<close> reads from \<^verbatim>\<open>results\<close>\<close>. \<open>spec_entries\<close> is that
  description: for an envelope of one of the three kinds it gives the dictionary that
  names the device (the one element of a heartbeat, the envelope itself otherwise)
  and the list of parameter entries.
\<close>

definition spec_entries :: "pydict \<Rightarrow> (pydict \<times> pyval list) option" where
  "spec_entries envelope =
     (case dict_get envelope (PStr ''cmd'') of
        Some (PStr cmd) \<Rightarrow>
          if cmd = ''heartbeat'' then
            (case dict_get envelope (PStr ''params'') of
               Some (PList [PDict item]) \<Rightarrow>
                 (case dict_get item (PStr ''res_list'') of
                    Some (PList entries) \<Rightarrow> Some (item, entries)
                  | _ \<Rightarrow> None)
             | _ \<Rightarrow> None)
          else if cmd = ''report'' then
            (case dict_get envelope (PStr ''params'') of
               Some (PList entries) \<Rightarrow> Some (envelope, entries)
             | Some _ \<Rightarrow> None
             | None \<Rightarrow>
                 (case dict_get envelope (PStr ''mi_spec'') of
                    Some (PList entries) \<Rightarrow> Some (envelope, entries)
                  | _ \<Rightarrow> None))
          else if cmd = ''write_rsp'' then
            (case dict_get envelope (PStr ''results'') of
               Some (PList entries) \<Rightarrow> Some (envelope, entries)
             | _ \<Rightarrow> None)
          else None
      | _ \<Rightarrow> None)"

text \<open>
  A parameter entry is converted when it has \<^emph>\<open>a zero/absent error code\<close>.
\<close>

definition zero_error_code :: "pydict \<Rightarrow> bool" where
  "zero_error_code entry =
     (case dict_get entry (PStr ''error_code'') of
        None \<Rightarrow> True
      | Some code \<Rightarrow> py_eq code (PInt 0))"

text \<open>
  The wire name that an entry carries is its field \<^verbatim>\<open>res_name\<close> (the wire shape
  \<^verbatim>\<open>{res_name, value}\<close> of the specification). The entries of a \<^verbatim>\<open>mi_spec\<close> list have
  the fields \<^verbatim>\<open>siid\<close> and \<^verbatim>\<open>piid\<close> instead, and their wire name is the text of the two
  joined by a dot. \<open>other\<close> is the text of a float or a container, as in \<open>py_str\<close>.
\<close>

definition spec_wire :: "(pyval \<Rightarrow> string) \<Rightarrow> pydict \<Rightarrow> pyval option" where
  "spec_wire other entry =
     (case dict_get entry (PStr ''res_name'') of
        Some wire \<Rightarrow> Some wire
      | None \<Rightarrow>
          (case (dict_get entry (PStr ''siid''), dict_get entry (PStr ''piid'')) of
             (Some siid, Some piid) \<Rightarrow> Some (PStr (py_str other siid @ ''.'' @ py_str other piid))
           | _ \<Rightarrow> None))"

text \<open>
  The entries that can be converted: a dictionary that either carries a non-zero error
  code, or has a wire name and a value such that the wire name and the canonical name
  can be dictionary keys, a temperature or humidity value is a number in the range of
  a float, and a battery value is a number.
\<close>

definition convertible :: "ext \<Rightarrow> parameter list \<Rightarrow> pyval \<Rightarrow> bool" where
  "convertible ext parameterSpec param =
     (case param of
        PDict entry \<Rightarrow>
          \<not> zero_error_code entry \<or>
          (case (spec_wire (format_other ext) entry, dict_get entry (PStr ''value'')) of
             (Some wire, Some v) \<Rightarrow>
               hashable wire \<and>
               (let name = spec_resolve (GLOBAL_PROP ext) parameterSpec wire
                in hashable name
                   \<and> (name = PStr ''temperature'' \<or> name = PStr ''humidity'' \<longrightarrow> \<not> isl (float_of v))
                   \<and> (name = PStr ''battery'' \<longrightarrow> num_val v \<noteq> None))
           | _ \<Rightarrow> False)
      | _ \<Rightarrow> False)"

section \<open>Sample data\<close>

text \<open>
  A catalog with two models (a temperature and humidity sensor, a plug), a global
  table with two entries, and a gateway that knows one device of each model, each with
  one update handler. The descriptors are
  \<^verbatim>\<open>[wire name, hub property key, canonical name, domain]\<close>.
\<close>

definition sample_specs :: pyval where
  "sample_specs = PList
     [PList [PStr ''0.1.85'', PStr ''temperature'', PStr ''temperature'', PStr ''sensor''],
      PList [PStr ''0.2.85'', PStr ''humidity'', PStr ''humidity'', PStr ''sensor''],
      PList [PStr ''8.0.2001'', PStr ''battery'', PStr ''battery'', PStr ''sensor'']]"

definition plug_specs :: pyval where
  "plug_specs = PList
     [PList [PStr ''0.12.85'', PStr ''load_power'', PStr ''power'', PStr ''sensor''],
      PList [PStr ''4.1.85'', PStr ''neutral_0'', PStr ''switch'', PStr ''switch'']]"

text \<open>
  The texts that the sample JSON parser knows, with the objects they stand for: the
  Bluetooth notification, and the values of a small hub database. (The texts are
  written without the quotation marks of JSON.)
\<close>

definition sample_ble :: pyval where
  "sample_ble = PDict
     [(PStr ''method'', PStr ''_async.ble_event''),
      (PStr ''params'', PDict
         [(PStr ''dev'', PDict [(PStr ''did'', PStr ''blt.3.1''), (PStr ''mac'', PStr ''A4:C1:38:00:00:01'')]),
          (PStr ''evt'', PList [PDict [(PStr ''eid'', PInt 4100), (PStr ''edata'', PStr ''e600'')]])])]"

definition sample_texts :: "(string \<times> pyval) list" where
  "sample_texts =
     [(''{_async.ble_event}'', sample_ble),
      (''[lumi.1,lumi.2]'', PList [PStr ''lumi.1'', PStr ''lumi.2'']),
      (''{props:{temperature:2350,humidity:4500}}'',
         PDict [(PStr ''props'', PDict [(PStr ''temperature'', PInt 2350), (PStr ''humidity'', PInt 4500)])]),
      (''{props:{humidity:4500}}'',
         PDict [(PStr ''props'', PDict [(PStr ''humidity'', PInt 4500)])]),
      (''{props:{neutral_0:on,load_power:12}}'',
         PDict [(PStr ''props'', PDict [(PStr ''neutral_0'', PStr ''on''), (PStr ''load_power'', PInt 12)])]),
      (''{mac:0x00158d0000000000}'', PDict [(PStr ''mac'', PStr ''0x00158d0000000000'')])]"

definition sample_ext :: ext where
  "sample_ext =
     \<lparr>GLOBAL_PROP = [(PStr ''8.0.2007'', PStr ''lqi''), (PStr ''8.0.2008'', PStr ''voltage'')],
      get_device =
        (\<lambda>model. Inr (if model = PStr ''lumi.sensor_ht''
                        then Some [(PStr ''device_name'', PStr ''TH Sensor''),
                                   (PStr ''params'', sample_specs)]
                        else if model = PStr ''lumi.plug''
                        then Some [(PStr ''device_name'', PStr ''Plug''),
                                   (PStr ''params'', plug_specs)]
                        else None)),
      parse_xiaomi_ble =
        (\<lambda>event. Inr (if event = PDict [(PStr ''eid'', PInt 4100), (PStr ''edata'', PStr ''e600'')]
                        then Some [(PStr ''temperature'', PFloat 23)]
                        else None)),
      get_ble_domain = (\<lambda>k. Inr (if k = PStr ''temperature'' then PStr ''sensor'' else PNone)),
      json_loads =
        (\<lambda>s. case map_of sample_texts s of None \<Rightarrow> Inl ExternalError | Some v \<Rightarrow> Inr v),
      format_other = (\<lambda>v. [])\<rparr>"

definition sample_device :: pydict where
  "sample_device =
     [(PStr ''did'', PStr ''lumi.1''),
      (PStr ''mac'', PStr ''0x158d0001''),
      (PStr ''model'', PStr ''lumi.sensor_ht''),
      (PStr ''params'', sample_specs)]"

definition sample_plug :: pydict where
  "sample_plug =
     [(PStr ''did'', PStr ''lumi.2''),
      (PStr ''mac'', PStr ''0x158d0002''),
      (PStr ''model'', PStr ''lumi.plug''),
      (PStr ''params'', plug_specs)]"

definition sample_gw :: gateway where
  "sample_gw =
     \<lparr>devices = [(PStr ''lumi.1'', sample_device), (PStr ''lumi.2'', sample_plug)],
      updates = [(PStr ''lumi.1'', [7]), (PStr ''lumi.2'', [8])],
      setups = [(PStr ''sensor'', 3)],
      calls = []\<rparr>"

text \<open>
  A report for the sensor: a temperature, a global property, an entry with an error
  code, and an entry that names its property by \<^verbatim>\<open>siid\<close> and \<^verbatim>\<open>piid\<close>.
  \<open>sample_parameters\<close> is the parameterSpec of the sensor as tuples.
\<close>

definition sample_report :: pyval where
  "sample_report = PDict
     [(PStr ''cmd'', PStr ''report''), (PStr ''did'', PStr ''lumi.1''),
      (PStr ''params'', PList
         [PDict [(PStr ''res_name'', PStr ''0.1.85''), (PStr ''value'', PInt 2350)],
          PDict [(PStr ''res_name'', PStr ''8.0.2008''), (PStr ''value'', PInt 3005)],
          PDict [(PStr ''res_name'', PStr ''0.2.85''), (PStr ''value'', PInt 1), (PStr ''error_code'', PInt (- 5))],
          PDict [(PStr ''siid'', PInt 2), (PStr ''piid'', PInt 13), (PStr ''value'', PStr ''on'')]])]"

definition sample_parameters :: "parameter list" where
  "sample_parameters =
     [(PStr ''0.1.85'', PStr ''temperature'', PStr ''temperature'', PStr ''sensor''),
      (PStr ''0.2.85'', PStr ''humidity'', PStr ''humidity'', PStr ''sensor''),
      (PStr ''8.0.2001'', PStr ''battery'', PStr ''battery'', PStr ''sensor'')]"

text \<open>The hub database of the sample, as \<^verbatim>\<open>Unqlite(raw).read_all()\<close> returns it.\<close>

definition sample_db :: pydict where
  "sample_db =
     [(PStr ''dev_list'', PStr ''[lumi.1,lumi.2]''),
      (PStr ''lumi.1.model'', PStr ''lumi.sensor_ht''),
      (PStr ''lumi.1.mac'', PStr ''158d0001''),
      (PStr ''lumi.1.version'', PStr ''1.2''),
      (PStr ''lumi.1.prop'', PStr ''{props:{temperature:2350,humidity:4500}}''),
      (PStr ''lumi.2.model'', PStr ''lumi.plug''),
      (PStr ''lumi.2.mac'', PStr ''158d0002''),
      (PStr ''lumi.2.version'', PStr ''1.2''),
      (PStr ''lumi.2.prop'', PStr ''{props:{neutral_0:on,load_power:12}}'')]"

text \<open>The same database after the hub lost the retained temperature of \<^verbatim>\<open>lumi.1\<close>.\<close>

definition sample_db_absent :: pydict where
  "sample_db_absent = dict_set sample_db (PStr ''lumi.1.prop'') (PStr ''{props:{humidity:4500}}'')"

text \<open>
  A hub whose device list never reaches the total it reports: every page holds the
  same stub and announces 40 devices.
\<close>

definition endless_pages :: "nat \<Rightarrow> py_error + pyval" where
  "endless_pages i = Inr (PList
     [PDict [(PStr ''num'', PInt 1), (PStr ''did'', PStr ''lumi.158d0009''),
             (PStr ''model'', PStr ''lumi.unknown''), (PStr ''total'', PInt 40)]])"

definition endless_stub :: "pyval \<times> pyval" where
  "endless_stub =
     (PInt 1, PDict [(PStr ''did'', PStr ''lumi.158d0009''),
                     (PStr ''mac'', PStr ''0x158d0009''),
                     (PStr ''model'', PStr ''lumi.unknown'')])"

text \<open>A device whose descriptors give one wire name to two canonical names, and one
  whose descriptor uses a wire name of the global table.\<close>

definition ambiguous_device :: pydict where
  "ambiguous_device =
     [(PStr ''did'', PStr ''lumi.3''),
      (PStr ''model'', PStr ''lumi.sensor_switch''),
      (PStr ''params'', PList
         [PList [PStr ''13.1.85'', PNone, PStr ''button'', PNone],
          PList [PStr ''13.1.85'', PNone, PStr ''action'', PStr ''sensor'']])]"

definition shadowed_device :: pydict where
  "shadowed_device =
     [(PStr ''did'', PStr ''lumi.4''),
      (PStr ''model'', PStr ''lumi.meter''),
      (PStr ''params'', PList
         [PList [PStr ''8.0.2008'', PNone, PStr ''supply'', PStr ''sensor'']])]"

text \<open>
  A gateway whose own record carries the descriptor of the \<^verbatim>\<open>added_device\<close> report, with
  one handler for the hub and both entity domains set up; the report that announces a new
  plug; and the record that the registry holds for the plug afterwards.
\<close>

definition hub_device :: pydict where
  "hub_device =
     [(PStr ''did'', PStr ''lumi.0''),
      (PStr ''mac'', PStr ''0x00158d0000000000''),
      (PStr ''model'', PStr ''lumi.gateway.mgl03''),
      (PStr ''params'', PList [PList [PStr ''8.0.2084'', PNone, PStr ''added_device'', PNone]])]"

definition hub_gw :: gateway where
  "hub_gw =
     \<lparr>devices = [(PStr ''lumi.0'', hub_device)],
      updates = [(PStr ''lumi.0'', [9])],
      setups = [(PStr ''sensor'', 3), (PStr ''switch'', 4)],
      calls = []\<rparr>"

definition added_report :: pyval where
  "added_report = PDict
     [(PStr ''cmd'', PStr ''report''), (PStr ''did'', PStr ''lumi.0''),
      (PStr ''params'', PList
         [PDict [(PStr ''res_name'', PStr ''8.0.2084''),
                 (PStr ''value'', PDict [(PStr ''did'', PStr ''lumi.5''),
                                        (PStr ''mac'', PStr ''158d0005''),
                                        (PStr ''model'', PStr ''lumi.plug'')])]])]"

definition added_record :: pydict where
  "added_record =
     [(PStr ''did'', PStr ''lumi.5''),
      (PStr ''mac'', PStr ''0x158d0005''),
      (PStr ''model'', PStr ''lumi.plug''),
      (PStr ''device_name'', PStr ''Plug''),
      (PStr ''params'', plug_specs)]"

section \<open>Facts about the Python operations\<close>

lemma andThen_Inr [simp]: "andThen (Inr x) f = f x"
  by (simp add: andThen_def)

lemma andThen_Inl [simp]: "andThen (Inl e) f = Inl e"
  by (simp add: andThen_def)

lemma py_eq_PStr_right [simp]: "py_eq a (PStr s) = (a = PStr s)"
  by (cases a) (auto simp: py_eq_def)

lemma py_eq_PStr_left [simp]: "py_eq (PStr s) a = (a = PStr s)"
  by (cases a) (auto simp: py_eq_def)

lemma py_eq_refl [simp]: "py_eq a a"
  by (cases a) (auto simp: py_eq_def)

lemma py_eq_sym: "py_eq a b = py_eq b a"
  by (cases a; cases b) (auto simp: py_eq_def)

lemma py_eq_trans: "py_eq a b \<Longrightarrow> py_eq b c \<Longrightarrow> py_eq a c"
  by (cases a; cases b; cases c) (auto simp: py_eq_def split: if_splits)

lemma dict_has_dict_set: "dict_has d k \<Longrightarrow> dict_has (dict_set d k' v) k"
  by (induction d) (auto simp: dict_has_def)

lemma dict_get_dict_set_same: "dict_get (dict_set d k v) k = Some v"
  by (induction d) auto

lemma dict_get_dict_set_other: "\<not> py_eq k k' \<Longrightarrow> dict_get (dict_set d k v) k' = dict_get d k'"
proof (induction d)
  case Nil
  then show ?case by simp
next
  case (Cons a d)
  obtain k0 v0 where a: "a = (k0, v0)" by (cases a)
  show ?case
  proof (cases "py_eq k0 k")
    case True
    have "\<not> py_eq k0 k'"
    proof
      assume "py_eq k0 k'"
      with True have "py_eq k k'" using py_eq_sym py_eq_trans by blast
      with Cons.prems show False by simp
    qed
    with True a show ?thesis by simp
  next
    case False
    with a Cons show ?thesis by simp
  qed
qed

lemma dict_get_member: "dict_get d k = Some v \<Longrightarrow> \<exists>k'. (k', v) \<in> set d \<and> py_eq k' k"
  by (induction d) (auto split: if_splits)

lemma dict_get_dict_set: "dict_get (dict_set d n v) k = (if py_eq n k then Some v else dict_get d k)"
proof (cases "py_eq n k")
  case False
  then show ?thesis by (simp add: dict_get_dict_set_other)
next
  case True
  have "dict_get (dict_set d n v) k = Some v"
  proof (induction d)
    case Nil
    from True show ?case by simp
  next
    case (Cons a d)
    obtain k0 v0 where a: "a = (k0, v0)" by (cases a)
    show ?case
    proof (cases "py_eq k0 n")
      case same: True
      from same True have "py_eq k0 k" by (rule py_eq_trans)
      with same a show ?thesis by simp
    next
      case other: False
      have "\<not> py_eq k0 k"
      proof
        assume "py_eq k0 k"
        moreover from True have "py_eq k n" by (simp add: py_eq_sym)
        ultimately have "py_eq k0 n" by (rule py_eq_trans)
        with other show False by simp
      qed
      with other a Cons.IH show ?thesis by simp
    qed
  qed
  with True show ?thesis by simp
qed

lemma dict_has_dict_set_iff: "dict_has (dict_set d n v) k = (py_eq n k \<or> dict_has d k)"
  by (simp add: dict_has_def dict_get_dict_set)

section \<open>Facts about the floats\<close>

lemma bit_length_le: "n < 2 ^ k \<Longrightarrow> bit_length n \<le> k"
proof (induction n arbitrary: k rule: bit_length.induct)
  case (1 n)
  show ?case
  proof (cases "n = 0")
    case True
    then show ?thesis by (simp add: bit_length.simps)
  next
    case False
    with "1.prems" obtain j where k: "k = Suc j" by (cases k) auto
    with "1.prems" have "n div 2 < 2 ^ j" by auto
    with "1.IH" [OF False] have "bit_length (n div 2) \<le> j" by simp
    with False k show ?thesis by (simp add: bit_length.simps [of n])
  qed
qed

lemma bit_length_gt: "2 ^ k \<le> n \<Longrightarrow> k < bit_length n"
proof (induction n arbitrary: k rule: bit_length.induct)
  case (1 n)
  have "0 < (2::nat) ^ k" by simp
  with "1.prems" have n: "n \<noteq> 0" by linarith
  show ?case
  proof (cases k)
    case 0
    with n show ?thesis by (simp add: bit_length.simps [of n])
  next
    case (Suc j)
    with "1.prems" have "2 ^ j \<le> n div 2" by auto
    with "1.IH" [OF n] have "j < bit_length (n div 2)" by simp
    with n Suc show ?thesis by (simp add: bit_length.simps [of n])
  qed
qed

lemma pow2_pos: "0 < pow2 e"
  by (simp add: pow2_def)

lemma pow2_add: "pow2 (a + b) = pow2 a * pow2 b"
proof -
  have "pow2 e = 2 powi e" for e
    by (simp add: pow2_def power_int_def field_simps)
  then show ?thesis by (simp add: power_int_add)
qed

lemma pow2_mono: "a \<le> b \<Longrightarrow> pow2 a \<le> pow2 b"
proof -
  have e: "pow2 e = 2 powi e" for e
    by (simp add: pow2_def power_int_def field_simps)
  show "a \<le> b \<Longrightarrow> pow2 a \<le> pow2 b"
    unfolding e by (rule power_int_increasing) simp_all
qed

lemma floor_log2_less:
  assumes "0 < x" and "x < pow2 t"
  shows "floor_log2 x < t"
proof (cases "1 \<le> x")
  case True
  with assms(2) have "1 < pow2 t" by simp
  have t: "0 < t"
  proof (rule ccontr)
    assume "\<not> 0 < t"
    then have "pow2 t \<le> pow2 0" by (intro pow2_mono) simp
    with \<open>1 < pow2 t\<close> show False by (simp add: pow2_def)
  qed
  have "of_int \<lfloor>x\<rfloor> \<le> x" by simp
  also from assms(2) t have "x < 2 ^ nat t" by (simp add: pow2_def)
  finally have "\<lfloor>x\<rfloor> < 2 ^ nat t"
    by (metis of_int_less_iff of_int_numeral of_int_power)
  moreover from True have "0 \<le> \<lfloor>x\<rfloor>" by simp
  ultimately have "nat \<lfloor>x\<rfloor> < 2 ^ nat t"
    by (simp add: nat_less_iff)
  then have "bit_length (nat \<lfloor>x\<rfloor>) \<le> nat t" by (rule bit_length_le)
  with True t show ?thesis by (simp add: floor_log2_def)
next
  case False
  show ?thesis
  proof (cases "0 < t")
    case True
    with False show ?thesis by (simp add: floor_log2_def)
  next
    case neg: False
    define N :: nat where "N = 2 ^ nat (- t)"
    from assms(2) neg have "x < 1 / of_nat N"
      by (cases "t = 0") (simp_all add: pow2_def N_def)
    with assms(1) have "of_nat N < 1 / x"
      by (simp add: field_simps N_def)
    then have "int N < \<lceil>1 / x\<rceil>"
      by (simp add: less_ceiling_iff)
    then have "N \<le> nat (\<lceil>1 / x\<rceil> - 1)" by simp
    then have "nat (- t) < bit_length (nat (\<lceil>1 / x\<rceil> - 1))"
      unfolding N_def by (rule bit_length_gt)
    with False neg show ?thesis by (simp add: floor_log2_def)
  qed
qed

lemma py_round_of_int: "py_round (of_int m) = m"
  by (simp add: py_round_def)

lemma py_round_error: "\<bar>of_int (py_round y) - y\<bar> \<le> 1 / 2"
proof -
  define f where "f = \<lfloor>y\<rfloor>"
  define d where "d = y - of_int f"
  have d: "0 \<le> d" "d < 1" unfolding d_def f_def by linarith+
  have y: "y = of_int f + d" by (simp add: d_def)
  have r: "py_round y = (if d < 1 / 2 then f else if 1 / 2 < d then f + 1 else if even f then f else f + 1)"
    by (simp add: py_round_def Let_def f_def d_def)
  from r have "of_int (py_round y) - y =
      (if d < 1 / 2 then - d else if 1 / 2 < d then 1 - d else if even f then - d else 1 - d)"
    by (simp add: d_def)
  with d show ?thesis by (auto simp: abs_if)
qed

lemma py_round_near:
  assumes "\<bar>y - of_int k\<bar> < 1 / 2"
  shows "py_round y = k"
proof -
  from assms have a: "of_int k - 1 / 2 < y" "y < of_int k + 1 / 2" by (auto simp: abs_if split: if_splits)
  show ?thesis
  proof (cases "of_int k \<le> y")
    case True
    with a have "\<lfloor>y\<rfloor> = k" by (simp add: floor_eq_iff)
    with a show ?thesis by (simp add: py_round_def Let_def)
  next
    case False
    with a have "\<lfloor>y\<rfloor> = k - 1" by (simp add: floor_eq_iff)
    with a show ?thesis by (simp add: py_round_def Let_def)
  qed
qed

lemma nearest_double_error:
  assumes "\<bar>x\<bar> < pow2 t" and "- 1021 \<le> t"
  shows "\<bar>nearest_double x - x\<bar> \<le> pow2 (t - 54)"
proof (cases "x = 0")
  case True
  then show ?thesis using pow2_pos [of "t - 54"] by (simp add: nearest_double_def)
next
  case False
  define u where "u = pow2 (max (floor_log2 \<bar>x\<bar>) (- 1022) - 52)"
  from False assms(1) have "floor_log2 \<bar>x\<bar> < t" by (intro floor_log2_less) simp_all
  with assms(2) have "max (floor_log2 \<bar>x\<bar>) (- 1022) - 52 \<le> t - 53" by simp
  then have u_le: "u \<le> pow2 (t - 53)" unfolding u_def by (rule pow2_mono)
  have u_pos: "0 < u" unfolding u_def by (rule pow2_pos)
  have nd: "nearest_double x = of_int (py_round (x / u)) * u"
    using False by (simp add: nearest_double_def u_def Let_def)
  have "\<bar>nearest_double x - x\<bar> = \<bar>of_int (py_round (x / u)) - x / u\<bar> * u"
    using u_pos by (simp add: nd abs_mult [symmetric] field_simps)
  also have "\<dots> \<le> 1 / 2 * u"
    using py_round_error [of "x / u"] u_pos by (intro mult_right_mono) simp_all
  also have "\<dots> \<le> 1 / 2 * pow2 (t - 53)" using u_le by simp
  also have "\<dots> = pow2 (t - 54)"
    using pow2_add [of "t - 54" 1] by (simp add: pow2_def)
  finally show ?thesis .
qed

lemma nearest_double_exact:
  assumes "\<bar>m\<bar> < 2 ^ 53" and "j \<le> 1074"
  shows "nearest_double (of_int m / 2 ^ j) = of_int m / 2 ^ j"
proof (cases "m = 0")
  case True
  then show ?thesis by (simp add: nearest_double_def)
next
  case False
  define x :: rat where "x = of_int m / 2 ^ j"
  define e where "e = max (floor_log2 \<bar>x\<bar>) (- 1022) - 52"
  from False have x0: "x \<noteq> 0" by (simp add: x_def)
  have p: "pow2 (- int j) = 1 / 2 ^ j" by (simp add: pow2_def)
  from assms(1) have "\<bar>of_int m :: rat\<bar> < 2 ^ 53"
    by (metis of_int_abs of_int_less_iff of_int_numeral of_int_power)
  then have "\<bar>x\<bar> < pow2 53 * pow2 (- int j)"
    by (simp add: x_def p pow2_def abs_divide field_simps)
  then have "\<bar>x\<bar> < pow2 (53 - int j)"
    using pow2_add [of 53 "- int j"] by simp
  with x0 have "floor_log2 \<bar>x\<bar> < 53 - int j" by (intro floor_log2_less) simp_all
  with assms(2) have e: "e \<le> - int j" by (simp add: e_def)
  define k where "k = nat (- int j - e)"
  from e have k: "- int j = e + int k" by (simp add: k_def)
  have "pow2 (- int j) = pow2 e * pow2 (int k)" unfolding k by (rule pow2_add)
  moreover have "pow2 (int k) = 2 ^ k" by (simp add: pow2_def)
  moreover have "x = of_int m * pow2 (- int j)" by (simp add: x_def p)
  ultimately have "x = of_int m * 2 ^ k * pow2 e" by simp
  then have "x / pow2 e = of_int m * 2 ^ k"
    using pow2_pos [of e] by simp
  then have q: "x / pow2 e = of_int (m * 2 ^ k)" by simp
  have "nearest_double x = of_int (py_round (x / pow2 e)) * pow2 e"
    using x0 by (simp add: nearest_double_def e_def Let_def)
  also have "\<dots> = x / pow2 e * pow2 e"
    unfolding q py_round_of_int by simp
  also have "\<dots> = x" using pow2_pos [of e] by simp
  finally show ?thesis by (simp add: x_def)
qed

lemma nearest_double_of_int: "\<bar>m\<bar> < 2 ^ 53 \<Longrightarrow> nearest_double (of_int m) = of_int m"
  using nearest_double_exact [of m 0] by simp

text \<open>
  Rounding a number of sevenths: no tie can occur, and the nearest integer is given
  by an integer division.
\<close>

lemma py_round_sevenths: "py_round (of_int n / 7) = (2 * n + 7) div 14"
proof -
  define q where "q = n div 7"
  define r where "r = n mod 7"
  have n: "n = 7 * q + r" and r: "0 \<le> r" "r < 7"
    by (simp_all add: q_def r_def)
  have fl: "\<lfloor>(of_int n :: rat) / 7\<rfloor> = q"
    using floor_divide_of_int_eq [of n 7, where ?'a = rat] by (simp add: q_def)
  have d: "(of_int n :: rat) / 7 - of_int q = of_int r / 7"
    by (simp add: n field_simps)
  have lt: "((of_int r :: rat) / 7 < 1 / 2) = (r \<le> 3)"
  proof -
    have "((of_int r :: rat) / 7 < 1 / 2) = ((of_int (2 * r) :: rat) < of_int 7)"
      by (simp add: field_simps)
    also have "\<dots> = (2 * r < 7)" by (simp only: of_int_less_iff)
    also have "\<dots> = (r \<le> 3)" by arith
    finally show ?thesis .
  qed
  have gt: "(1 / 2 < (of_int r :: rat) / 7) = (4 \<le> r)"
  proof -
    have "(1 / 2 < (of_int r :: rat) / 7) = ((of_int 7 :: rat) < of_int (2 * r))"
      by (simp add: field_simps)
    also have "\<dots> = (7 < 2 * r)" by (simp only: of_int_less_iff)
    also have "\<dots> = (4 \<le> r)" by arith
    finally show ?thesis .
  qed
  have "py_round (of_int n / 7) = (if r \<le> 3 then q else q + 1)"
    unfolding py_round_def Let_def fl d lt gt using r by auto
  also have "\<dots> = (2 * n + 7) div 14"
    using r unfolding n by (auto simp: div_pos_pos_trivial)
  finally show ?thesis .
qed

text \<open>The quotient of a small integer by 7 rounds, as a double, to the same integer.\<close>

lemma py_round_double_sevenths:
  assumes "\<bar>n\<bar> < 1792"
  shows "py_round (nearest_double (of_int n / 7)) = (2 * n + 7) div 14"
proof -
  define k where "k = (2 * n + 7) div 14"
  define x :: rat where "x = of_int n / 7"
  have "14 * k \<le> 2 * n + 7" "2 * n + 7 < 14 * k + 14" "2 * n + 7 \<noteq> 14 * k"
    unfolding k_def by presburger+
  then have "14 * k - 6 \<le> 2 * n" "2 * n \<le> 14 * k + 6" by presburger+
  then have "of_int (14 * k - 6) \<le> (of_int (2 * n) :: rat)" "(of_int (2 * n) :: rat) \<le> of_int (14 * k + 6)"
    by (simp_all only: of_int_le_iff)
  then have near: "\<bar>x - of_int k\<bar> \<le> 3 / 7"
    by (simp add: x_def abs_le_iff field_simps)
  from assms have "\<bar>of_int n :: rat\<bar> < 1792"
    by (metis of_int_abs of_int_less_iff of_int_numeral)
  then have "\<bar>x\<bar> < pow2 8" by (simp add: x_def pow2_def abs_divide)
  then have "\<bar>nearest_double x - x\<bar> \<le> pow2 (8 - 54)"
    by (rule nearest_double_error) simp
  also have "\<dots> < 1 / 14" by (simp add: pow2_def)
  finally have "\<bar>nearest_double x - of_int k\<bar> < 1 / 2" using near by linarith
  then have "py_round (nearest_double x) = k" by (rule py_round_near)
  then show ?thesis by (simp add: x_def k_def)
qed

lemma battery_percent_int:
  assumes "1000 < v"
  shows "battery_percent (PInt v) = Inr (PInt ((2 * (min v 3200 - 2500) + 7) div 14))"
proof -
  have e: "(if 3200 < (of_int v :: rat) then 3200 else of_int v) - 2500
           = of_int (min v 3200 - 2500)"
    by (simp add: min_def)
  from assms have "\<bar>min v 3200 - 2500\<bar> < 1792" by (simp add: min_def abs_if)
  then have "py_round (nearest_double (of_int (min v 3200 - 2500) / 7))
             = (2 * (min v 3200 - 2500) + 7) div 14"
    by (rule py_round_double_sevenths)
  then show ?thesis
    by (simp only: battery_percent_def battery_offset_def pyval.case num_val.simps option.case e)
qed

text \<open>The doubles of the sample data.\<close>

lemma bit_length_0 [simp]: "bit_length 0 = 0"
  by (simp add: bit_length.simps)

lemma bit_length_Suc_0 [simp]: "bit_length (Suc 0) = 1"
  by (simp add: bit_length.simps [of "Suc 0"])

lemma bit_length_numeral: "bit_length (numeral n) = Suc (bit_length (numeral n div 2))"
  by (simp add: bit_length.simps [of "numeral n"])

lemma floor_rat_numeral: "\<lfloor>(numeral a :: rat) / numeral b\<rfloor> = numeral a div numeral b"
  using floor_divide_of_int_eq [of "numeral a" "numeral b", where ?'a = rat] by simp

lemma floor_log2_2351: "floor_log2 (2351 / 100) = 4"
  by (simp add: floor_log2_def floor_rat_numeral bit_length_numeral)

lemma py_round_2351: "py_round (165436917561688064 / 25) = 6617476702467523"
  by (simp add: py_round_def Let_def floor_rat_numeral)

lemma nearest_double_2351: "nearest_double (2351 / 100) = 6617476702467523 / 281474976710656"
  by (simp add: nearest_double_def floor_log2_2351 pow2_def py_round_2351 Let_def)

lemma nearest_double_numeral [simp]:
  "numeral n < (2 :: int) ^ 53 \<Longrightarrow> nearest_double (numeral n) = numeral n"
  using nearest_double_of_int [of "numeral n"] by simp

lemma nearest_double_halves [simp]:
  "numeral n < (2 :: int) ^ 53 \<Longrightarrow> nearest_double (numeral n / 2) = numeral n / 2"
  using nearest_double_exact [of "numeral n" 1] by simp

text \<open>The definitions that a concrete run unfolds.\<close>

lemmas py_defs = dict_item_def dict_contains_def dict_has_def dict_store_def list_item_def
  position_def
  wire_name_def resolve_prop_def canonical_name_def fix_value_def convert_param_def
  build_payload_def
  added_device_def div_100_def float_of_def gt_1000_def

section \<open>The registry keeps its devices\<close>

lemma setup_params_devices: "devices (snd (setup_params gw device ps)) = devices gw"
proof (induction ps arbitrary: gw)
  case Nil
  show ?case by simp
next
  case (Cons p ps)
  show ?case
  proof (cases "subscr p (PInt 3)")
    case (Inl e)
    then show ?thesis by simp
  next
    case (Inr domain)
    show ?thesis
    proof (cases "truthy domain")
      case False
      with Inr Cons.IH show ?thesis by simp
    next
      case True
      show ?thesis
      proof (cases "dict_contains (setups gw) domain")
        case (Inl e)
        with Inr True show ?thesis by simp
      next
        case known: (Inr b)
        show ?thesis
        proof (cases b)
          case False
          with Inr True known show ?thesis by simp
        next
          case b: True
          show ?thesis
          proof (cases "andThen (subscr p (PInt 2))
                         (\<lambda>attr. andThen (dict_item (setups gw) domain)
                         (\<lambda>handler. Inr (Setup handler device attr)))")
            case (Inl e)
            with Inr True known b show ?thesis by simp
          next
            case c: (Inr c)
            have "devices (snd (setup_params (gw\<lparr>calls := calls gw @ [c]\<rparr>) device ps)) = devices gw"
              using Cons.IH [of "gw\<lparr>calls := calls gw @ [c]\<rparr>"] by simp
            with Inr True known b c show ?thesis by simp
          qed
        qed
      qed
    qed
  qed
qed

lemma setup_devices_keeps:
  "dict_has (devices gw) k \<Longrightarrow> dict_has (devices (snd (setup_devices ext gw ds))) k"
proof (induction ds arbitrary: gw)
  case Nil
  then show ?case by simp
next
  case (Cons d ds)
  show ?case
  proof (cases "\<exists>device. d = PDict device")
    case False
    with Cons.prems show ?thesis by (cases d) simp_all
  next
    case True
    then obtain device where d: "d = PDict device" by blast
    show ?thesis
    proof (cases "merge_device ext gw device")
      case (Inl e)
      with d Cons.prems show ?thesis by simp
    next
      case (Inr m)
      show ?thesis
      proof (cases m)
        case None
        with Inr d Cons show ?thesis by simp
      next
        case (Some a)
        obtain did dev where a: "a = (did, dev)" by (cases a)
        define gw' where "gw' = gw\<lparr>devices := dict_set (devices gw) did dev\<rparr>"
        have k': "dict_has (devices gw') k"
          using Cons.prems by (simp add: gw'_def dict_has_dict_set)
        show ?thesis
        proof (cases "andThen (dict_item dev (PStr ''params'')) py_iter")
          case (Inl e)
          with Inr Some a k' d show ?thesis by (simp add: gw'_def)
        next
          case ps: (Inr ps)
          obtain out gw'' where sp: "setup_params gw' dev ps = (out, gw'')"
            by (cases "setup_params gw' dev ps")
          have d'': "devices gw'' = devices gw'"
            using setup_params_devices [of gw' dev ps] sp by simp
          show ?thesis
          proof (cases out)
            case Done
            have "dict_has (devices (snd (setup_devices ext gw'' ds))) k"
              using Cons.IH [of gw''] k' d'' by simp
            with Inr Some a ps sp Done d show ?thesis by (simp add: gw'_def)
          next
            case (Raised e)
            with Inr Some a ps sp k' d'' d show ?thesis by (simp add: gw'_def)
          next
            case Waiting
            with Inr Some a ps sp k' d'' d show ?thesis by (simp add: gw'_def)
          qed
        qed
      qed
    qed
  qed
qed

lemma added_device_keeps:
  "dict_has (devices gw) k \<Longrightarrow> dict_has (devices (snd (added_device ext gw payload))) k"
  by (auto simp: added_device_def setup_devices_keeps split: sum.splits)

lemma dispatch_params_keeps:
  "dict_has (devices gw) k \<Longrightarrow> dict_has (devices (snd (dispatch_params ext gw data pkey))) k"
  by (auto simp: dispatch_params_def added_device_keeps split: sum.splits bool.splits)

lemma process_message_keeps:
  "dict_has (devices gw) k \<Longrightarrow> dict_has (devices (snd (process_message ext gw data))) k"
  by (auto simp: process_message_def dispatch_params_keeps split: sum.splits)

lemma ble_keys_keeps:
  "dict_has (devices gw) k \<Longrightarrow> dict_has (devices (fst (snd (ble_keys ext gw did device items)))) k"
proof (induction items arbitrary: gw device)
  case Nil
  then show ?case by simp
next
  case (Cons item items)
  obtain key v where item: "item = (key, v)" by (cases item)
  show ?case
  proof (cases "andThen (dict_item device (PStr ''init'')) (\<lambda>init.
           andThen (py_in key init) (\<lambda>seen. Inr (init, seen)))")
    case (Inl e)
    with Cons.prems item show ?thesis by simp
  next
    case (Inr r)
    obtain init seen where r: "r = (init, seen)" by (cases r)
    show ?thesis
    proof (cases seen)
      case True
      with Inr r item Cons show ?thesis by simp
    next
      case False
      show ?thesis
      proof (cases "py_setitem init key v")
        case (Inl e)
        with Inr r item False Cons.prems show ?thesis by simp
      next
        case init': (Inr init')
        define device' where "device' = dict_set device (PStr ''init'') init'"
        define gw' where "gw' = gw\<lparr>devices := dict_set (devices gw) did device'\<rparr>"
        have k': "dict_has (devices gw') k"
          using Cons.prems by (simp add: gw'_def dict_has_dict_set)
        have step: "ble_keys ext gw did device (item # items) =
          (case get_ble_domain ext key of
             Inl e \<Rightarrow> (Raised e, gw', device')
           | Inr domain \<Rightarrow>
               if \<not> truthy domain then ble_keys ext gw' did device' items
               else
                 (case dict_contains (setups gw') domain of
                    Inl e \<Rightarrow> (Raised e, gw', device')
                  | Inr False \<Rightarrow> (Waiting, gw', device')
                  | Inr True \<Rightarrow>
                      (case dict_item (setups gw') domain of
                         Inl e \<Rightarrow> (Raised e, gw', device')
                       | Inr handler \<Rightarrow>
                           ble_keys ext (gw'\<lparr>calls := calls gw' @ [Setup handler device' key]\<rparr>)
                             did device' items)))"
          using Inr r item False init' unfolding gw'_def device'_def by (simp add: Let_def)
        have ih1: "dict_has (devices (fst (snd (ble_keys ext gw' did device' items)))) k"
          using Cons.IH [of gw' device'] k' by simp
        have ih2: "dict_has (devices (fst (snd (ble_keys ext
                     (gw'\<lparr>calls := calls gw' @ [Setup h device' key]\<rparr>) did device' items)))) k" for h
          using Cons.IH [of "gw'\<lparr>calls := calls gw' @ [Setup h device' key]\<rparr>" device'] k' by simp
        show ?thesis
          unfolding step using k' ih1 ih2
          by (auto split: sum.splits bool.splits)
      qed
    qed
  qed
qed

lemma ble_device_keeps:
  "ble_device gw data = Inr (did, device, gw') \<Longrightarrow> dict_has (devices gw) k
     \<Longrightarrow> dict_has (devices gw') k"
  by (auto simp: ble_device_def andThen_def Let_def dict_has_dict_set split: sum.splits if_splits)

lemma notify_devices: "devices (snd (notify gw did payload)) = devices gw"
  by (simp add: notify_def split: option.splits)

lemma process_bluetooth_keeps:
  assumes "dict_has (devices gw) k"
  shows "dict_has (devices (snd (process_bluetooth ext gw raw))) k"
proof (cases "is_substring ''_async.ble_event'' raw")
  case False
  with assms show ?thesis by (simp add: process_bluetooth_def)
next
  case True
  show ?thesis
  proof (cases "andThen (json_loads ext (drop 10 raw)) (\<lambda>msg.
              andThen (subscr msg (PStr ''params'')) (\<lambda>data.
              andThen (ble_device gw data) (\<lambda>found. Inr (data, found))))")
    case (Inl e)
    with True assms show ?thesis by (simp add: process_bluetooth_def)
  next
    case (Inr r)
    obtain data did device gw' where r: "r = (data, did, device, gw')" by (cases r) auto
    from Inr r have "ble_device gw data = Inr (did, device, gw')"
      by (auto simp: andThen_def split: sum.splits)
    then have k': "dict_has (devices gw') k"
      using assms by (rule ble_device_keeps)
    show ?thesis
    proof (cases "andThen (subscr data (PStr ''evt'')) (\<lambda>evt.
                   andThen (py_len evt) (\<lambda>n.
                     if n \<noteq> 1 then Inl AssertionError
                     else andThen (subscr evt (PInt 0)) (parse_xiaomi_ble ext)))")
      case (Inl e)
      with True Inr r k' show ?thesis by (simp add: process_bluetooth_def)
    next
      case p: (Inr p)
      show ?thesis
      proof (cases p)
        case None
        with True Inr r k' p show ?thesis by (simp add: process_bluetooth_def)
      next
        case (Some payload)
        obtain out gw'' device' where b: "ble_keys ext gw' did device payload = (out, gw'', device')"
          by (cases "ble_keys ext gw' did device payload") auto
        have k'': "dict_has (devices gw'') k"
          using ble_keys_keeps [OF k', of ext did device payload] b by simp
        have "snd (process_bluetooth ext gw raw) = (case out of Done \<Rightarrow> snd (notify gw'' did payload) | _ \<Rightarrow> gw'')"
          using True Inr r p Some b by (simp add: process_bluetooth_def split: outcome.splits)
        with k'' show ?thesis
          by (simp add: notify_devices split: outcome.splits)
      qed
    qed
  qed
qed

lemma send_devices: "devices (snd (send gw device param v)) = devices gw"
  by (simp add: send_def split: sum.splits)

text \<open>
  Claim C9. Each operation that touches the device registry (\<^verbatim>\<open>setup_devices\<close>,
  \<^verbatim>\<open>process_message\<close>, \<^verbatim>\<open>process_bluetooth\<close>, \<^verbatim>\<open>send\<close>) keeps every key of the
  registry: a device id that is mapped before the call is mapped after it, whether the
  call returns, raises or waits. Records are replaced or added, never deleted.
\<close>

theorem registry_retention:
  assumes "dict_has (devices gw) k"
  shows "dict_has (devices (snd (setup_devices ext gw ds))) k
       \<and> dict_has (devices (snd (process_message ext gw data))) k
       \<and> dict_has (devices (snd (process_bluetooth ext gw raw))) k
       \<and> dict_has (devices (snd (send gw device param v))) k"
  using assms
  by (simp add: setup_devices_keeps process_message_keeps process_bluetooth_keeps send_devices)

theorem registry_retention_witness:
  "dict_has (devices (snd (setup_devices sample_ext sample_gw
       [PDict [(PStr ''did'', PStr ''lumi.2''), (PStr ''mac'', PStr ''0x158d0002''),
               (PStr ''model'', PStr ''lumi.sensor_ht'')]]))) (PStr ''lumi.1'')
   \<and> dict_has (devices (snd (process_message sample_ext sample_gw
       (PDict [(PStr ''cmd'', PStr ''report''), (PStr ''did'', PStr ''lumi.1''),
               (PStr ''params'', PList [PDict [(PStr ''res_name'', PStr ''0.1.85''),
                                              (PStr ''value'', PInt 2350)]])])))) (PStr ''lumi.1'')
   \<and> dict_has (devices (snd (process_bluetooth sample_ext sample_gw
       ''[12345.6] {_async.ble_event}''))) (PStr ''lumi.1'')
   \<and> dict_has (devices (snd (send sample_gw (PDict sample_device) (PStr ''battery'') (PInt 1))))
       (PStr ''lumi.1'')"
proof -
  have "dict_has (devices sample_gw) (PStr ''lumi.1'')"
    by (simp add: sample_gw_def dict_has_def)
  then show ?thesis by (rule registry_retention)
qed

text \<open>
  The one place where \<^verbatim>\<open>process_message\<close> adds a record: the report of a joined device.
  The handler of the hub receives the payload, then the new plug is registered under its
  id with the \<^verbatim>\<open>0x\<close> prefix on its address, and one entity is set up per descriptor with
  a domain. The record of the hub stays.
\<close>

lemma added_device_sample:
  "process_message sample_ext hub_gw added_report
   = (Done,
      hub_gw\<lparr>devices := [(PStr ''lumi.0'', hub_device), (PStr ''lumi.5'', added_record)],
              calls := [Update 9 [(PStr ''added_device'',
                          PDict [(PStr ''did'', PStr ''lumi.5''), (PStr ''mac'', PStr ''158d0005''),
                                 (PStr ''model'', PStr ''lumi.plug'')])],
                        Setup 3 added_record (PStr ''power''),
                        Setup 4 added_record (PStr ''switch'')]\<rparr>)"
  by (simp add: added_report_def process_message_def select_params_def dispatch_params_def py_defs
      merge_device_def prefix_0x_def
      hub_gw_def hub_device_def added_record_def sample_ext_def plug_specs_def)

section \<open>Commands and subscribers\<close>

text \<open>
  Claim C4. The specification wants a message whose \<^verbatim>\<open>cmd\<close> is none of \<^verbatim>\<open>heartbeat\<close>,
  \<^verbatim>\<open>report\<close> and \<^verbatim>\<open>write_rsp\<close> to raise the unsupported-protocol error and to leave the
  registry as it was. Line 373 is \<^verbatim>\<open>raise NotImplemented(f"Unsupported cmd: {data}")\<close>:
  \<^verbatim>\<open>NotImplemented\<close> is the constant that a comparison method returns, not the exception
  class \<^verbatim>\<open>NotImplementedError\<close>, and it cannot be called. The error for the unsupported
  command is never made: what \<^verbatim>\<open>process_message\<close> raises is the \<^verbatim>\<open>TypeError\<close> of the
  failed call, the exception it also raises for a message that is not an envelope at
  all. The gateway, its registry included, is left as it was.
\<close>

theorem unsupported_cmd_type_error:
  assumes "subscr data (PStr ''cmd'') = Inr cmd"
    and "cmd \<noteq> PStr ''heartbeat''" and "cmd \<noteq> PStr ''report''" and "cmd \<noteq> PStr ''write_rsp''"
  shows "process_message ext gw data = (Raised TypeError, gw)
       \<and> process_message ext gw data = process_message ext gw (PList [])"
  using assms by (simp add: process_message_def select_params_def)

theorem unsupported_cmd_type_error_witness:
  "process_message sample_ext sample_gw
     (PDict [(PStr ''cmd'', PStr ''read_rsp''), (PStr ''did'', PStr ''lumi.1''),
             (PStr ''results'', PList [])])
   = (Raised TypeError, sample_gw)
   \<and> process_message sample_ext sample_gw
     (PDict [(PStr ''cmd'', PStr ''read_rsp''), (PStr ''did'', PStr ''lumi.1''),
             (PStr ''results'', PList [])])
   = process_message sample_ext sample_gw (PList [])"
  by (rule unsupported_cmd_type_error [where cmd = "PStr ''read_rsp''"])
     (simp_all add: dict_item_def)

text \<open>
  Claim C5. A \<^verbatim>\<open>heartbeat\<close> message whose parameter list does not have exactly one
  element makes \<^verbatim>\<open>process_message\<close> raise (the \<^verbatim>\<open>AssertionError\<close> of line 364) and
  leaves the gateway as it was; with exactly one element, the message is processed as
  that element, with the properties read under its key \<^verbatim>\<open>res_list\<close>.
\<close>

theorem heartbeat_one_element:
  assumes "subscr data (PStr ''cmd'') = Inr (PStr ''heartbeat'')"
    and "subscr data (PStr ''params'') = Inr (PList items)"
  shows "(length items \<noteq> 1 \<longrightarrow> process_message ext gw data = (Raised AssertionError, gw)) \<and>
         (\<forall>item. items = [item] \<longrightarrow>
            process_message ext gw data = dispatch_params ext gw item (PStr ''res_list''))"
  using assms by (auto simp: process_message_def select_params_def list_item_def position_def)

theorem heartbeat_one_element_witness:
  "process_message sample_ext sample_gw
     (PDict [(PStr ''cmd'', PStr ''heartbeat''),
             (PStr ''params'', PList [])])
   = (Raised AssertionError, sample_gw)
   \<and> process_message sample_ext sample_gw
     (PDict [(PStr ''cmd'', PStr ''heartbeat''),
             (PStr ''params'', PList
                [PDict [(PStr ''did'', PStr ''lumi.1''),
                        (PStr ''res_list'', PList
                           [PDict [(PStr ''res_name'', PStr ''0.2.85''), (PStr ''value'', PInt 4500)],
                            PDict [(PStr ''res_name'', PStr ''8.0.2008''), (PStr ''value'', PInt 3005)]])]])])
   = (Done, sample_gw\<lparr>calls := [Update 7 [(PStr ''humidity'', PFloat 45), (PStr ''voltage'', PInt 3005)]]\<rparr>)"
proof -
  let ?item = "PDict [(PStr ''did'', PStr ''lumi.1''),
                        (PStr ''res_list'', PList
                           [PDict [(PStr ''res_name'', PStr ''0.2.85''), (PStr ''value'', PInt 4500)],
                            PDict [(PStr ''res_name'', PStr ''8.0.2008''), (PStr ''value'', PInt 3005)]])]"
  have d: "dispatch_params sample_ext sample_gw ?item (PStr ''res_list'')
      = (Done, sample_gw\<lparr>calls := [Update 7 [(PStr ''humidity'', PFloat 45), (PStr ''voltage'', PInt 3005)]]\<rparr>)"
    by (simp add: dispatch_params_def py_defs sample_gw_def sample_ext_def sample_device_def sample_specs_def)
  show ?thesis
    using heartbeat_one_element [of "PDict [(PStr ''cmd'', PStr ''heartbeat''), (PStr ''params'', PList [])]" "[]" sample_ext sample_gw]
      heartbeat_one_element [of "PDict [(PStr ''cmd'', PStr ''heartbeat''), (PStr ''params'', PList [?item])]" "[?item]" sample_ext sample_gw]
    by (simp add: dict_item_def d)
qed

text \<open>
  Claim C7. A heartbeat, report or write_rsp message for a device id without update
  subscriber is dropped: \<^verbatim>\<open>process_message\<close> returns and the gateway is as it was
  (no handler was called, no device was set up, registry and subscribers unchanged).
\<close>

theorem unsubscribed_dropped:
  assumes "subscr data (PStr ''cmd'') = Inr (PStr cmd)"
    and "cmd = ''heartbeat'' \<and> subscr data (PStr ''params'') = Inr (PList [item])
         \<or> (cmd = ''report'' \<or> cmd = ''write_rsp'') \<and> item = data"
    and "subscr item (PStr ''did'') = Inr did"
    and "dict_contains (updates gw) did = Inr False"
  shows "process_message ext gw data = (Done, gw)"
proof -
  from assms(1) obtain d where d: "data = PDict d"
    by (cases data) (auto simp: split: option.splits)
  from assms(1,2) obtain pkey where "select_params data = Inr (item, pkey)"
    by (auto simp: select_params_def list_item_def position_def d dict_contains_def)
  with assms(3,4) show ?thesis
    by (simp add: process_message_def dispatch_params_def)
qed

theorem unsubscribed_dropped_witness:
  "process_message sample_ext sample_gw
     (PDict [(PStr ''cmd'', PStr ''report''), (PStr ''did'', PStr ''lumi.9''),
             (PStr ''params'', PList [PDict [(PStr ''res_name'', PStr ''8.0.2084''),
                (PStr ''value'', PDict [(PStr ''did'', PStr ''lumi.9''), (PStr ''mac'', PStr ''158d0009''),
                                        (PStr ''model'', PStr ''lumi.sensor_ht'')])]])])
   = (Done, sample_gw)"
proof -
  let ?data = "PDict [(PStr ''cmd'', PStr ''report''), (PStr ''did'', PStr ''lumi.9''),
             (PStr ''params'', PList [PDict [(PStr ''res_name'', PStr ''8.0.2084''),
                (PStr ''value'', PDict [(PStr ''did'', PStr ''lumi.9''), (PStr ''mac'', PStr ''158d0009''),
                                        (PStr ''model'', PStr ''lumi.sensor_ht'')])]])]"
  show ?thesis
    using unsubscribed_dropped [of ?data "''report''" ?data "PStr ''lumi.9''" sample_gw sample_ext]
    by (simp add: dict_item_def dict_contains_def dict_has_def sample_gw_def)
qed

section \<open>Paginated discovery\<close>

lemma load_pages_sent: "snd (load_pages other pages k i devs) \<le> i + k"
proof (induction k arbitrary: i devs)
  case 0
  show ?case by simp
next
  case (Suc k)
  have ih: "snd (load_pages other pages k (Suc i) devs') \<le> Suc i + k" for devs'
    by (rule Suc.IH)
  show ?case
    using ih by (auto split: sum.splits bool.splits)
qed

lemma load_pages_same:
  "(\<And>j. i \<le> j \<Longrightarrow> j < i + k \<Longrightarrow> pages j = pages' j) \<Longrightarrow>
   load_pages other pages k i devs = load_pages other pages' k i devs"
proof (induction k arbitrary: i devs)
  case 0
  show ?case by simp
next
  case (Suc k)
  have here: "pages i = pages' i" by (rule Suc.prems) simp_all
  have ih: "load_pages other pages k (Suc i) devs' = load_pages other pages' k (Suc i) devs'" for devs'
    by (rule Suc.IH) (simp add: Suc.prems)
  show ?case by (auto simp: here ih split: sum.splits bool.splits)
qed

lemma endless_step:
  "devs = [] \<or> devs = [endless_stub] \<Longrightarrow>
   load_pages other endless_pages (Suc k) i devs = load_pages other endless_pages k (Suc i) [endless_stub]"
  by (auto simp: endless_pages_def endless_stub_def py_defs py_eq_def str_int_def)

lemma endless_loop:
  "load_pages other endless_pages k i [endless_stub] = (Inr (Collected [endless_stub]), i + k)"
proof (induction k arbitrary: i)
  case 0
  show ?case by simp
next
  case (Suc k)
  have "load_pages other endless_pages (Suc k) i [endless_stub]
        = load_pages other endless_pages k (Suc i) [endless_stub]"
    by (rule endless_step) simp
  also have "\<dots> = (Inr (Collected [endless_stub]), Suc i + k)"
    by (rule Suc.IH)
  finally show ?case by simp
qed

lemma endless_pages_sent_16:
  "load_pages other endless_pages 16 0 [] = (Inr (Collected [endless_stub]), 16)"
proof -
  have "load_pages other endless_pages (Suc 15) 0 [] = load_pages other endless_pages 15 (Suc 0) [endless_stub]"
    by (rule endless_step) simp
  then show ?thesis by (simp add: endless_loop)
qed

lemma endless_discovery:
  "get_devices_v1 sample_ext endless_pages (\<lambda>args. Inl ExternalError)
     (Inr (PStr ''54:ef:44:00:00:01'', PStr ''lumi.gateway.mgl03''))
   = (Some [snd endless_stub,
            PDict [(PStr ''did'', PStr ''lumi.0''), (PStr ''mac'', PStr ''54:ef:44:00:00:01''),
                   (PStr ''model'', PStr ''lumi.gateway.mgl03'')]], 16)"
  by (simp add: get_devices_v1_def endless_pages_sent_16 endless_stub_def load_init_def
      py_defs sample_ext_def)

text \<open>
  Claim C8. The page loop of \<^verbatim>\<open>_get_devices_v1\<close> is a total function of the replies,
  and it sends at most 16 \<^verbatim>\<open>get_device_list\<close> commands whatever the replies are,
  also when no reported total ever equals the number of stubs collected: the result
  does not depend on any reply after the sixteenth.
\<close>

theorem paged_discovery_bounded:
  "snd (get_devices_v1 ext pages props info) \<le> 16 \<and>
   ((\<forall>j<16. pages j = pages' j) \<longrightarrow>
      get_devices_v1 ext pages props info = get_devices_v1 ext pages' props info)"
proof
  have "snd (load_pages (format_other ext) pages 16 0 []) \<le> 0 + 16"
    by (rule load_pages_sent)
  then show "snd (get_devices_v1 ext pages props info) \<le> 16"
    by (auto simp: get_devices_v1_def split: prod.splits sum.splits pages_end.splits)
next
  show "(\<forall>j<16. pages j = pages' j) \<longrightarrow>
      get_devices_v1 ext pages props info = get_devices_v1 ext pages' props info"
  proof
    assume same: "\<forall>j<16. pages j = pages' j"
    have "load_pages (format_other ext) pages 16 0 [] = load_pages (format_other ext) pages' 16 0 []"
      by (rule load_pages_same) (simp add: same)
    then show "get_devices_v1 ext pages props info = get_devices_v1 ext pages' props info"
      by (simp add: get_devices_v1_def)
  qed
qed

theorem paged_discovery_bounded_witness:
  "snd (get_devices_v1 sample_ext endless_pages (\<lambda>args. Inl ExternalError)
     (Inr (PStr ''54:ef:44:00:00:01'', PStr ''lumi.gateway.mgl03''))) \<le> 16
   \<and> get_devices_v1 sample_ext (\<lambda>j. if j < 16 then endless_pages j else Inl ExternalError)
       (\<lambda>args. Inl ExternalError) (Inr (PStr ''54:ef:44:00:00:01'', PStr ''lumi.gateway.mgl03''))
     = (Some [snd endless_stub,
            PDict [(PStr ''did'', PStr ''lumi.0''), (PStr ''mac'', PStr ''54:ef:44:00:00:01''),
                   (PStr ''model'', PStr ''lumi.gateway.mgl03'')]], 16)"
proof -
  let ?props = "\<lambda>args :: pyval list. (Inl ExternalError :: py_error + pyval)"
  let ?info = "Inr (PStr ''54:ef:44:00:00:01'', PStr ''lumi.gateway.mgl03'') :: py_error + pyval \<times> pyval"
  let ?cut = "\<lambda>j. if j < 16 then endless_pages j else Inl ExternalError"
  note bound = paged_discovery_bounded [of sample_ext endless_pages ?props ?info ?cut]
  from bound have a: "snd (get_devices_v1 sample_ext endless_pages ?props ?info) \<le> 16"
    by (rule conjunct1)
  from bound have "get_devices_v1 sample_ext endless_pages ?props ?info
      = get_devices_v1 sample_ext ?cut ?props ?info"
    by simp
  then have b: "get_devices_v1 sample_ext ?cut ?props ?info
      = get_devices_v1 sample_ext endless_pages ?props ?info"
    by (rule sym)
  show ?thesis
    using a by (simp only: b endless_discovery)
qed

section \<open>Value fixups\<close>

text \<open>
  The battery branch of \<^verbatim>\<open>process_message\<close> on an integer reading above 1000: the
  nearest integer to \<open>(min v 3200 - 2500) / 7\<close>. It is at most 100, but it is negative
  for every reading below 2497.
\<close>

lemma battery_update_value:
  "1000 < v \<Longrightarrow>
   fix_value (PStr ''battery'') (PDict [(PStr ''value'', PInt v)])
     = Inr (PInt ((2 * (min v 3200 - 2500) + 7) div 14))"
  by (simp add: fix_value_def dict_item_def gt_1000_def battery_percent_int)

lemma battery_update_range:
  assumes "1000 < v"
  shows "- 214 \<le> (2 * (min v 3200 - 2500) + 7) div (14 :: int)"
    and "(2 * (min v 3200 - 2500) + 7) div 14 \<le> 100"
    and "((2 * (min v 3200 - 2500) + 7) div 14 < 0) = (v < 2497)"
  using assms by (auto simp: min_def)

text \<open>
  Claim C1. The specification wants the battery value clamped to the range from 0 to
  100, so that a reading of 1500 gives 0. The code caps the reading at 3200 and has
  no lower bound: the update that the handler receives for a reading of 1500 carries
  the battery value -143.
\<close>

theorem battery_1500_negative:
  "process_message sample_ext sample_gw
     (PDict [(PStr ''cmd'', PStr ''report''), (PStr ''did'', PStr ''lumi.1''),
             (PStr ''params'', PList [PDict [(PStr ''res_name'', PStr ''8.0.2001''),
                                            (PStr ''value'', PInt 1500)]])])
   = (Done, sample_gw\<lparr>calls := [Update 7 [(PStr ''battery'', PInt (- 143))]]\<rparr>)"
  by (simp add: process_message_def select_params_def dispatch_params_def py_defs
      battery_percent_int sample_gw_def sample_ext_def sample_device_def sample_specs_def)


text \<open>
  Claim C3. The specification wants every update to carry 1 for \<^verbatim>\<open>"on"\<close> and
  \<^verbatim>\<open>"open"\<close> and 0 for \<^verbatim>\<open>"off"\<close> and \<^verbatim>\<open>"close"\<close>. Both discovery strategies
  convert these strings; \<^verbatim>\<open>process_message\<close> has no such branch and hands the string
  \<^verbatim>\<open>"on"\<close> to the handler as it came.
\<close>

theorem switch_on_not_converted:
  "process_message sample_ext sample_gw
     (PDict [(PStr ''cmd'', PStr ''report''), (PStr ''did'', PStr ''lumi.2''),
             (PStr ''params'', PList [PDict [(PStr ''res_name'', PStr ''4.1.85''),
                                            (PStr ''value'', PStr ''on'')]])])
   = (Done, sample_gw\<lparr>calls := [Update 8 [(PStr ''switch'', PStr ''on'')]]\<rparr>)
   \<and> fix_retained (PStr ''switch'') (PStr ''on'') = Inr (PInt 1)
   \<and> fix_live (PStr ''switch'') (PStr ''on'') = Inr (PInt 1)"
  by (simp add: process_message_def select_params_def dispatch_params_def py_defs
      fix_retained_def fix_live_def
      sample_gw_def sample_ext_def sample_device_def sample_plug_def plug_specs_def)


text \<open>The database strategy on the sample database.\<close>

lemma database_discovery_sample:
  "get_devices_v3 sample_ext (Inr sample_db) (Inr ''{mac:0x00158d0000000000}# '')
   = Some
      [PDict [(PStr ''did'', PStr ''lumi.0''), (PStr ''model'', PStr ''lumi.gateway.mgl03''),
              (PStr ''mac'', PStr ''0x00158d0000000000'')],
       PDict [(PStr ''did'', PStr ''lumi.1''), (PStr ''mac'', PStr ''0x158d0001''),
              (PStr ''model'', PStr ''lumi.sensor_ht''), (PStr ''zb_ver'', PStr ''1.2''),
              (PStr ''init'', PDict [(PStr ''temperature'', PFloat (47 / 2)),
                                    (PStr ''humidity'', PFloat 45), (PStr ''battery'', PNone)])],
       PDict [(PStr ''did'', PStr ''lumi.2''), (PStr ''mac'', PStr ''0x158d0002''),
              (PStr ''model'', PStr ''lumi.plug''), (PStr ''zb_ver'', PStr ''1.2''),
              (PStr ''init'', PDict [(PStr ''power'', PInt 12), (PStr ''switch'', PInt 1)])]]"
  by (simp add: get_devices_v3_def read_device_def loads_def str_add_def prefix_0x_def
      fix_retained_def py_defs py_eq_def
      sample_ext_def sample_db_def sample_texts_def sample_specs_def plug_specs_def)


section \<open>Outbound commands and inbound names\<close>

lemma find_name_encode:
  "find_name (map encode_spec ps) w =
     Inr (case find (\<lambda>(w', key, name, domain). py_eq w' w) ps of
            Some (w', key, name, domain) \<Rightarrow> Some name
          | None \<Rightarrow> None)"
proof (induction ps)
  case Nil
  show ?case by simp
next
  case (Cons p ps)
  obtain w' key name domain where p: "p = (w', key, name, domain)" by (cases p)
  have "subscr (encode_spec p) (PInt 0) = Inr w'" "subscr (encode_spec p) (PInt 2) = Inr name"
    by (simp_all add: p encode_spec_def list_item_def position_def)
  then show ?case by (simp add: Cons.IH p)
qed

lemma find_wire_encode:
  "find_wire (map encode_spec ps) x =
     (case find (\<lambda>(w, key, name, domain). py_eq name x) ps of
        Some (w, key, name, domain) \<Rightarrow> Inr w
      | None \<Rightarrow> Inl StopIteration)"
proof (induction ps)
  case Nil
  show ?case by simp
next
  case (Cons p ps)
  obtain w key name domain where p: "p = (w, key, name, domain)" by (cases p)
  have "subscr (encode_spec p) (PInt 0) = Inr w" "subscr (encode_spec p) (PInt 2) = Inr name"
    by (simp_all add: p encode_spec_def list_item_def position_def)
  then show ?case by (simp add: Cons.IH p)
qed

lemma find_first:
  assumes "P p"
  shows "find P (before @ p # after) = (case find P before of Some y \<Rightarrow> Some y | None \<Rightarrow> Some p)"
  using assms by (induction before) auto

text \<open>
  Claim C6, as amended. Let \<open>x\<close> be a canonical name of the parameterSpec of a device,
  and \<open>w\<close> the wire name of the first descriptor named \<open>x\<close>. \<^verbatim>\<open>send\<close> publishes the
  write command that carries \<open>w\<close>. The name resolution of \<^verbatim>\<open>process_message\<close> gives \<open>x\<close>
  back for an inbound parameter that carries \<open>w\<close> exactly when the global table maps
  \<open>w\<close> to \<open>x\<close>, or the global table has no entry for \<open>w\<close> and no descriptor listed
  before that first one has the wire name \<open>w\<close>.
\<close>

theorem send_then_resolve:
  assumes spec: "dict_get device (PStr ''params'')
                 = Some (PList (map encode_spec (before @ (w, key, PStr x, domain) # after)))"
    and first: "list_all (\<lambda>(w', key', name', domain'). name' \<noteq> PStr x) before"
    and did: "dict_get device (PStr ''did'') = Some did"
    and model: "dict_has device (PStr ''model'')"
  shows "send gw (PDict device) (PStr x) v =
           (Done, gw\<lparr>calls := calls gw @
              [Publish ''zigbee/recv''
                 (PDict [(PStr ''cmd'', PStr ''write''), (PStr ''did'', did),
                         (PStr ''params'', PList [PDict [(PStr ''res_name'', w), (PStr ''value'', v)]])])]\<rparr>)
       \<and> (\<forall>entry. dict_get entry (PStr ''res_name'') = Some w \<longrightarrow>
            (canonical_name ext device (PDict entry) = Inr (PStr x)) =
              (hashable w \<and>
               (case dict_get (GLOBAL_PROP ext) w of
                  Some name \<Rightarrow> name = PStr x
                | None \<Rightarrow> list_all (\<lambda>(w', key', name', domain'). \<not> py_eq w' w) before)))"
proof (intro conjI allI impI)
  let ?named = "\<lambda>(w' :: pyval, key' :: pyval, name', domain' :: pyval). py_eq name' (PStr x)"
  from first have "find ?named before = None"
    by (auto simp: find_None_iff list_all_iff)
  then have "find ?named (before @ (w, key, PStr x, domain) # after) = Some (w, key, PStr x, domain)"
    by (simp add: find_first)
  then have "find_wire (map encode_spec (before @ (w, key, PStr x, domain) # after)) (PStr x) = Inr w"
    unfolding find_wire_encode by simp
  moreover from model obtain m where "dict_get device (PStr ''model'') = Some m"
    by (auto simp: dict_has_def split: option.splits)
  ultimately show "send gw (PDict device) (PStr x) v =
           (Done, gw\<lparr>calls := calls gw @
              [Publish ''zigbee/recv''
                 (PDict [(PStr ''cmd'', PStr ''write''), (PStr ''did'', did),
                         (PStr ''params'', PList [PDict [(PStr ''res_name'', w), (PStr ''value'', v)]])])]\<rparr>)"
    using spec did by (simp add: send_def write_command_def dict_item_def)
next
  fix entry
  assume entry: "dict_get entry (PStr ''res_name'') = Some w"
  let ?wired = "\<lambda>(w', key' :: pyval, name' :: pyval, domain' :: pyval). py_eq w' w"
  from entry have wire: "wire_name ext (PDict entry) = Inr w"
    by (simp add: wire_name_def dict_contains_def dict_has_def dict_item_def)
  show "(canonical_name ext device (PDict entry) = Inr (PStr x)) =
          (hashable w \<and>
           (case dict_get (GLOBAL_PROP ext) w of
              Some name \<Rightarrow> name = PStr x
            | None \<Rightarrow> list_all (\<lambda>(w', key', name', domain'). \<not> py_eq w' w) before))"
  proof (cases "hashable w")
    case False
    with wire show ?thesis
      by (simp add: canonical_name_def resolve_prop_def dict_contains_def)
  next
    case True
    show ?thesis
    proof (cases "dict_get (GLOBAL_PROP ext) w")
      case (Some name)
      with True wire show ?thesis
        by (simp add: canonical_name_def resolve_prop_def dict_contains_def dict_has_def dict_item_def)
    next
      case None
      have found: "find ?wired (before @ (w, key, PStr x, domain) # after)
            = (case find ?wired before of Some y \<Rightarrow> Some y | None \<Rightarrow> Some (w, key, PStr x, domain))"
        by (rule find_first) simp
      have resolved: "canonical_name ext device (PDict entry) =
          Inr (case find ?wired before of
                 Some (w', key', name', domain') \<Rightarrow> name'
               | None \<Rightarrow> PStr x)"
        using True None wire spec
        unfolding canonical_name_def resolve_prop_def
        by (simp add: dict_contains_def dict_has_def dict_item_def
            find_name_encode [of "before @ (w, key, PStr x, domain) # after"] found
            del: map_append split: option.splits)
      show ?thesis
      proof (cases "find ?wired before")
        case none: None
        then have "list_all (\<lambda>(w', key', name', domain'). \<not> py_eq w' w) before"
          by (auto simp: find_None_iff list_all_iff)
        with True None none resolved show ?thesis by simp
      next
        case (Some y)
        obtain w' key' name' domain' where y: "y = (w', key', name', domain')" by (cases y)
        from Some y have in_before: "(w', key', name', domain') \<in> set before" and eq: "py_eq w' w"
          by (auto simp: find_Some_iff in_set_conv_nth)
        from in_before first have "name' \<noteq> PStr x" by (auto simp: list_all_iff)
        moreover from in_before eq have "\<not> list_all (\<lambda>(w', key', name', domain'). \<not> py_eq w' w) before"
          by (auto simp: list_all_iff)
        ultimately show ?thesis using True None Some y resolved by simp
      qed
    qed
  qed
qed

theorem send_then_resolve_witness:
  "send sample_gw (PDict sample_plug) (PStr ''switch'') (PInt 1) =
     (Done, sample_gw\<lparr>calls := calls sample_gw @
        [Publish ''zigbee/recv''
           (PDict [(PStr ''cmd'', PStr ''write''), (PStr ''did'', PStr ''lumi.2''),
                   (PStr ''params'', PList [PDict [(PStr ''res_name'', PStr ''4.1.85''), (PStr ''value'', PInt 1)]])])]\<rparr>)
   \<and> canonical_name sample_ext sample_plug
        (PDict [(PStr ''res_name'', PStr ''4.1.85''), (PStr ''value'', PStr ''on'')]) = Inr (PStr ''switch'')"
proof -
  have a: "dict_get sample_plug (PStr ''params'')
      = Some (PList (map encode_spec
          ([(PStr ''0.12.85'', PStr ''load_power'', PStr ''power'', PStr ''sensor'')]
            @ (PStr ''4.1.85'', PStr ''neutral_0'', PStr ''switch'', PStr ''switch'') # [])))"
    by (simp add: sample_plug_def plug_specs_def encode_spec_def)
  have b: "list_all (\<lambda>(w', key', name', domain'). name' \<noteq> PStr ''switch'')
             [(PStr ''0.12.85'', PStr ''load_power'', PStr ''power'', PStr ''sensor'')]"
    by simp
  have c: "dict_get sample_plug (PStr ''did'') = Some (PStr ''lumi.2'')"
    by (simp add: sample_plug_def)
  have d: "dict_has sample_plug (PStr ''model'')"
    by (simp add: sample_plug_def dict_has_def)
  note t = send_then_resolve [OF a b c d, of sample_gw "PInt 1" sample_ext]
  from t have trip: "\<forall>entry. dict_get entry (PStr ''res_name'') = Some (PStr ''4.1.85'') \<longrightarrow>
      (canonical_name sample_ext sample_plug (PDict entry) = Inr (PStr ''switch'')) =
        (hashable (PStr ''4.1.85'') \<and>
         (case dict_get (GLOBAL_PROP sample_ext) (PStr ''4.1.85'') of
            Some name \<Rightarrow> name = PStr ''switch''
          | None \<Rightarrow> list_all (\<lambda>(w', key', name', domain'). \<not> py_eq w' (PStr ''4.1.85''))
                      [(PStr ''0.12.85'', PStr ''load_power'', PStr ''power'', PStr ''sensor'')]))"
    by (rule conjunct2)
  have "canonical_name sample_ext sample_plug
        (PDict [(PStr ''res_name'', PStr ''4.1.85''), (PStr ''value'', PStr ''on'')]) = Inr (PStr ''switch'')"
    using trip [rule_format, of "[(PStr ''res_name'', PStr ''4.1.85''), (PStr ''value'', PStr ''on'')]"]
    by (simp add: sample_ext_def)
  with t show ?thesis by simp
qed

text \<open>
  Claim C6 as the specification states it, for every canonical name of every
  parameterSpec, fails. Where an earlier descriptor has the wire name of the first
  descriptor named \<open>x\<close>, the resolution returns the name of the earlier one: the
  command for \<^verbatim>\<open>action\<close> carries \<^verbatim>\<open>13.1.85\<close>, which resolves to \<^verbatim>\<open>button\<close>. And the
  resolution looks a wire name up in the global table before it looks at the device:
  the command for \<^verbatim>\<open>supply\<close> carries \<^verbatim>\<open>8.0.2008\<close>, which resolves to \<^verbatim>\<open>voltage\<close>.
\<close>

theorem send_then_resolve_fails:
  "send sample_gw (PDict ambiguous_device) (PStr ''action'') (PInt 1) =
     (Done, sample_gw\<lparr>calls :=
        [Publish ''zigbee/recv''
           (PDict [(PStr ''cmd'', PStr ''write''), (PStr ''did'', PStr ''lumi.3''),
                   (PStr ''params'', PList [PDict [(PStr ''res_name'', PStr ''13.1.85''), (PStr ''value'', PInt 1)]])])]\<rparr>)
   \<and> canonical_name sample_ext ambiguous_device
        (PDict [(PStr ''res_name'', PStr ''13.1.85''), (PStr ''value'', PInt 1)]) = Inr (PStr ''button'')
   \<and> send sample_gw (PDict shadowed_device) (PStr ''supply'') (PInt 1) =
     (Done, sample_gw\<lparr>calls :=
        [Publish ''zigbee/recv''
           (PDict [(PStr ''cmd'', PStr ''write''), (PStr ''did'', PStr ''lumi.4''),
                   (PStr ''params'', PList [PDict [(PStr ''res_name'', PStr ''8.0.2008''), (PStr ''value'', PInt 1)]])])]\<rparr>)
   \<and> canonical_name sample_ext shadowed_device
        (PDict [(PStr ''res_name'', PStr ''8.0.2008''), (PStr ''value'', PInt 1)]) = Inr (PStr ''voltage'')"
  by (simp add: send_def write_command_def ambiguous_device_def shadowed_device_def sample_ext_def
      sample_gw_def py_defs)


section \<open>Database discovery with a missing value\<close>

lemma fix_params_absent:
  assumes "(PStr name, PNone) \<in> set items" and "name = ''temperature'' \<or> name = ''humidity''"
  shows "\<exists>e. fix_params items params = Inl e"
  using assms(1)
proof (induction items arbitrary: params)
  case Nil
  then show ?case by simp
next
  case (Cons item items)
  obtain k v where item: "item = (k, v)" by (cases item)
  show ?case
  proof (cases "fix_retained k v")
    case (Inl e)
    with item show ?thesis by simp
  next
    case (Inr v')
    have "item \<noteq> (PStr name, PNone)"
    proof
      assume "item = (PStr name, PNone)"
      with item assms(2) have "fix_retained k v = Inl TypeError"
        by (auto simp: fix_retained_def div_100_def float_of_def)
      with Inr show False by simp
    qed
    with Cons.prems have "(PStr name, PNone) \<in> set items" by simp
    then have "\<exists>e. fix_params items (dict_set params k v') = Inl e" by (rule Cons.IH)
    with item Inr show ?thesis by simp
  qed
qed

lemma collect_retained_append:
  "collect_retained retain (xs @ ys) params
   = andThen (collect_retained retain xs params) (collect_retained retain ys)"
proof (induction xs arbitrary: params)
  case Nil
  show ?case by simp
next
  case (Cons p xs)
  show ?case
    by (simp add: Cons.IH andThen_def split: sum.splits)
qed

lemma collect_retained_keeps:
  assumes "\<forall>p\<in>set specs. \<forall>k n. subscr p (PInt 1) = Inr k \<and> subscr p (PInt 2) = Inr n \<and> k \<noteq> PNone
            \<longrightarrow> n \<noteq> PStr name"
    and "dict_get params (PStr name) = Some v"
    and "collect_retained retain specs params = Inr params'"
  shows "dict_get params' (PStr name) = Some v"
  using assms
proof (induction specs arbitrary: params)
  case Nil
  then show ?case by simp
next
  case (Cons p specs)
  note here = Cons.prems(1) and held = Cons.prems(2) and run = Cons.prems(3)
  from here have others:
    "\<forall>p\<in>set specs. \<forall>k n. subscr p (PInt 1) = Inr k \<and> subscr p (PInt 2) = Inr n \<and> k \<noteq> PNone
            \<longrightarrow> n \<noteq> PStr name"
    by (metis list.set_intros(2))
  from run obtain key where key: "subscr p (PInt 1) = Inr key"
    by (cases "subscr p (PInt 1)") simp_all
  show ?case
  proof (cases "key = PNone")
    case True
    with run key have "collect_retained retain specs params = Inr params'" by simp
    with others held show ?thesis by (rule Cons.IH)
  next
    case False
    from run key False obtain n where n: "subscr p (PInt 2) = Inr n"
      by (cases "subscr p (PInt 2)") simp_all
    from run key False n obtain x where x: "py_get retain key PNone = Inr x"
      by (cases "py_get retain key PNone") simp_all
    from run key False n x have
      rest: "collect_retained retain specs (dict_set params n x) = Inr params'"
      by (simp add: dict_store_def split: if_splits)
    from here key n False have "n \<noteq> PStr name" by simp
    then have "dict_get (dict_set params n x) (PStr name) = Some v"
      using held by (simp add: dict_get_dict_set_other)
    with others show ?thesis using rest by (rule Cons.IH)
  qed
qed

lemma collect_retained_absent:
  assumes specs: "specs = before @ PList (wire # key # PStr name # rest) # after"
    and key: "key \<noteq> PNone" and absent: "py_get retain key PNone = Inr PNone"
    and last: "\<forall>p\<in>set after. \<forall>k n. subscr p (PInt 1) = Inr k \<and> subscr p (PInt 2) = Inr n \<and> k \<noteq> PNone
            \<longrightarrow> n \<noteq> PStr name"
    and ok: "collect_retained retain specs [] = Inr params"
  shows "(PStr name, PNone) \<in> set params"
proof -
  from ok obtain mid where mid: "collect_retained retain before [] = Inr mid"
    and tail: "collect_retained retain (PList (wire # key # PStr name # rest) # after) mid = Inr params"
    unfolding specs collect_retained_append by (auto simp: andThen_def split: sum.splits)
  from tail key absent have "collect_retained retain after (dict_set mid (PStr name) PNone) = Inr params"
    by (simp add: list_item_def position_def dict_store_def)
  with last dict_get_dict_set_same [of mid "PStr name" PNone]
  have "dict_get params (PStr name) = Some PNone"
    by (rule collect_retained_keeps)
  then show ?thesis
    by (auto dest: dict_get_member)
qed

lemma read_devices_fails:
  assumes "did \<in> set dids" and "read_device ext data did = Inl e"
  shows "\<exists>e'. read_devices ext data dids = Inl e'"
  using assms(1)
proof (induction dids)
  case Nil
  then show ?case by simp
next
  case (Cons d dids)
  show ?case
  proof (cases "d = did")
    case True
    with assms(2) show ?thesis by simp
  next
    case False
    with Cons obtain e' where "read_devices ext data dids = Inl e'" by auto
    then show ?thesis by (cases "read_device ext data d") simp_all
  qed
qed

lemma read_device_absent:
  assumes model: "dict_item data (PStr (did @ ''.model'')) = Inr model" "get_device ext model = Inr (Some desc)"
    and blob: "dict_item data (PStr (did @ ''.prop'')) = Inr blob" "loads ext blob = Inr parsed"
      "subscr parsed (PStr ''props'') = Inr retain"
    and specs: "dict_item desc (PStr ''params'') = Inr listed" "py_iter listed = Inr specs"
    and built: "collect_retained retain specs [] = Inr params"
    and absent: "(PStr name, PNone) \<in> set params" "name = ''temperature'' \<or> name = ''humidity''"
  shows "\<exists>e. read_device ext data (PStr did) = Inl e"
proof -
  from absent obtain e where "fix_params params params = Inl e"
    using fix_params_absent by blast
  with model blob specs built have "read_device ext data (PStr did) = Inl e"
    by (simp add: read_device_def str_add_def)
  then show ?thesis by blast
qed

text \<open>
  Claim C10. Let a device of \<^verbatim>\<open>dev_list\<close> have a model that the catalog knows, and
  let the mapping that lines 225 to 229 build from its parameterSpec and its
  \<^verbatim>\<open>.prop\<close> blob give \<^verbatim>\<open>temperature\<close> or \<^verbatim>\<open>humidity\<close> the value \<^verbatim>\<open>None\<close> (the blob has
  no value under the hub property key). Then the fixup divides \<^verbatim>\<open>None\<close>, the exception
  reaches the \<^verbatim>\<open>except\<close> of line 264, and \<^verbatim>\<open>_get_devices_v3\<close> returns \<^verbatim>\<open>None\<close>: no
  device list at all, whatever the other devices and the coordinator reply are.
\<close>

theorem absent_value_fails_discovery:
  assumes listed: "dict_item data (PStr ''dev_list'') = Inr dev_list" "loads ext dev_list = Inr ids"
      "py_iter ids = Inr dids" "PStr did \<in> set dids"
    and model: "dict_item data (PStr (did @ ''.model'')) = Inr model" "get_device ext model = Inr (Some desc)"
    and blob: "dict_item data (PStr (did @ ''.prop'')) = Inr blob" "loads ext blob = Inr parsed"
      "subscr parsed (PStr ''props'') = Inr retain"
    and specs: "dict_item desc (PStr ''params'') = Inr listed" "py_iter listed = Inr specs"
    and built: "collect_retained retain specs [] = Inr params"
    and absent: "(PStr name, PNone) \<in> set params" "name = ''temperature'' \<or> name = ''humidity''"
  shows "get_devices_v3 ext (Inr data) coordinator = None"
proof -
  from model blob specs built absent obtain e where "read_device ext data (PStr did) = Inl e"
    using read_device_absent by blast
  with listed(4) obtain e' where "read_devices ext data dids = Inl e'"
    using read_devices_fails by blast
  with listed(1,2,3) show ?thesis
    by (simp add: get_devices_v3_def)
qed

theorem absent_value_fails_discovery_witness:
  "get_devices_v3 sample_ext (Inr sample_db_absent) (Inr ''{mac:0x00158d0000000000}# '') = None"
proof (rule absent_value_fails_discovery
    [where dev_list = "PStr ''[lumi.1,lumi.2]''" and ids = "PList [PStr ''lumi.1'', PStr ''lumi.2'']"
       and dids = "[PStr ''lumi.1'', PStr ''lumi.2'']"
       and did = "''lumi.1''" and model = "PStr ''lumi.sensor_ht''"
       and desc = "[(PStr ''device_name'', PStr ''TH Sensor''), (PStr ''params'', sample_specs)]"
       and blob = "PStr ''{props:{humidity:4500}}''"
       and parsed = "PDict [(PStr ''props'', PDict [(PStr ''humidity'', PInt 4500)])]"
       and retain = "PDict [(PStr ''humidity'', PInt 4500)]"
       and listed = sample_specs
       and specs = "[PList [PStr ''0.1.85'', PStr ''temperature'', PStr ''temperature'', PStr ''sensor''],
                     PList [PStr ''0.2.85'', PStr ''humidity'', PStr ''humidity'', PStr ''sensor''],
                     PList [PStr ''8.0.2001'', PStr ''battery'', PStr ''battery'', PStr ''sensor'']]"
       and params = "[(PStr ''temperature'', PNone), (PStr ''humidity'', PInt 4500), (PStr ''battery'', PNone)]"
       and name = "''temperature''"])
  show "dict_item sample_db_absent (PStr ''dev_list'') = Inr (PStr ''[lumi.1,lumi.2]'')"
    by (simp add: sample_db_absent_def sample_db_def dict_item_def)
  show "loads sample_ext (PStr ''[lumi.1,lumi.2]'') = Inr (PList [PStr ''lumi.1'', PStr ''lumi.2''])"
    by (simp add: loads_def sample_ext_def sample_texts_def)
  show "dict_item sample_db_absent (PStr (''lumi.1'' @ ''.model'')) = Inr (PStr ''lumi.sensor_ht'')"
    by (simp add: sample_db_absent_def sample_db_def dict_item_def)
  show "get_device sample_ext (PStr ''lumi.sensor_ht'')
        = Inr (Some [(PStr ''device_name'', PStr ''TH Sensor''), (PStr ''params'', sample_specs)])"
    by (simp add: sample_ext_def)
  show "dict_item sample_db_absent (PStr (''lumi.1'' @ ''.prop'')) = Inr (PStr ''{props:{humidity:4500}}'')"
    by (simp add: sample_db_absent_def sample_db_def dict_item_def)
  show "loads sample_ext (PStr ''{props:{humidity:4500}}'')
        = Inr (PDict [(PStr ''props'', PDict [(PStr ''humidity'', PInt 4500)])])"
    by (simp add: loads_def sample_ext_def sample_texts_def)
  show "py_iter sample_specs
        = Inr [PList [PStr ''0.1.85'', PStr ''temperature'', PStr ''temperature'', PStr ''sensor''],
                     PList [PStr ''0.2.85'', PStr ''humidity'', PStr ''humidity'', PStr ''sensor''],
                     PList [PStr ''8.0.2001'', PStr ''battery'', PStr ''battery'', PStr ''sensor'']]"
    by (simp add: sample_specs_def)
  show "collect_retained (PDict [(PStr ''humidity'', PInt 4500)])
          [PList [PStr ''0.1.85'', PStr ''temperature'', PStr ''temperature'', PStr ''sensor''],
                     PList [PStr ''0.2.85'', PStr ''humidity'', PStr ''humidity'', PStr ''sensor''],
                     PList [PStr ''8.0.2001'', PStr ''battery'', PStr ''battery'', PStr ''sensor'']] []
        = Inr [(PStr ''temperature'', PNone), (PStr ''humidity'', PInt 4500), (PStr ''battery'', PNone)]"
    by (simp add: py_defs)
qed (simp_all add: dict_item_def)

text \<open>
  The same in terms of the descriptors: the parameterSpec has a descriptor with a hub
  property key and the canonical name \<^verbatim>\<open>temperature\<close> or \<^verbatim>\<open>humidity\<close>, the blob has no
  value under that key, and no later descriptor with a hub property key has the same
  canonical name (its value would replace the missing one).
\<close>

lemma absent_descriptor_fails_discovery:
  assumes listed: "dict_item data (PStr ''dev_list'') = Inr dev_list" "loads ext dev_list = Inr (PList dids)"
      "PStr did \<in> set dids"
    and model: "dict_item data (PStr (did @ ''.model'')) = Inr model" "get_device ext model = Inr (Some desc)"
    and blob: "dict_item data (PStr (did @ ''.prop'')) = Inr blob" "loads ext blob = Inr parsed"
      "subscr parsed (PStr ''props'') = Inr retain"
    and specs: "dict_item desc (PStr ''params'') = Inr (PList specs)"
      "specs = before @ PList (wire # key # PStr name # rest) # after"
    and param: "key \<noteq> PNone" "name = ''temperature'' \<or> name = ''humidity''"
    and absent: "py_get retain key PNone = Inr PNone"
    and last: "\<forall>p\<in>set after. \<forall>k n. subscr p (PInt 1) = Inr k \<and> subscr p (PInt 2) = Inr n \<and> k \<noteq> PNone
            \<longrightarrow> n \<noteq> PStr name"
  shows "get_devices_v3 ext (Inr data) coordinator = None"
proof -
  have "\<exists>e. read_device ext data (PStr did) = Inl e"
  proof (cases "collect_retained retain specs []")
    case (Inl e)
    with model blob specs(1) have "read_device ext data (PStr did) = Inl e"
      by (simp add: read_device_def str_add_def)
    then show ?thesis by blast
  next
    case (Inr params)
    with specs(2) param(1) absent last have mem: "(PStr name, PNone) \<in> set params"
      by (intro collect_retained_absent [where retain = retain and specs = specs]) simp_all
    have iter: "py_iter (PList specs) = Inr specs" by simp
    show ?thesis
      by (rule read_device_absent [OF model blob specs(1) iter Inr mem param(2)])
  qed
  then obtain e where "read_device ext data (PStr did) = Inl e" by blast
  with listed(3) obtain e' where "read_devices ext data dids = Inl e'"
    using read_devices_fails by blast
  with listed(1,2) show ?thesis
    by (simp add: get_devices_v3_def)
qed


section \<open>The update that a message produces\<close>

lemma convert_param_cases:
  assumes "convert_param ext device e = Inr r"
  shows "(r = None \<and> \<not> accepted e) \<or>
         (\<exists>n v. r = Some (n, v) \<and> accepted e \<and> canonical_name ext device e = Inr n
                \<and> fix_value n e = Inr v)"
proof -
  from assms obtain c where c: "py_get e (PStr ''error_code'') (PInt 0) = Inr c"
    by (cases "py_get e (PStr ''error_code'') (PInt 0)") (simp_all add: convert_param_def)
  show ?thesis
  proof (cases "py_eq c (PInt 0)")
    case False
    with assms c show ?thesis by (simp add: convert_param_def accepted_def)
  next
    case True
    from assms c True obtain n where n: "canonical_name ext device e = Inr n"
      by (cases "canonical_name ext device e") (simp_all add: convert_param_def)
    from assms c True n obtain v where v: "fix_value n e = Inr v"
      by (cases "fix_value n e") (simp_all add: convert_param_def)
    from assms c True n v have "r = Some (n, v)" by (simp add: convert_param_def)
    with c True n v show ?thesis by (simp add: accepted_def)
  qed
qed

lemma fix_value_div_100:
  assumes "fix_value (PStr name) e = Inr x" and "name = ''temperature'' \<or> name = ''humidity''"
  shows "\<exists>raw q. subscr e (PStr ''value'') = Inr raw \<and> float_of raw = Inr q \<and> x = PFloat (nearest_double (q / 100))"
proof -
  from assms obtain raw where raw: "subscr e (PStr ''value'') = Inr raw"
    by (cases "subscr e (PStr ''value'')") (auto simp: fix_value_def)
  from assms raw obtain q where q: "float_of raw = Inr q"
    by (cases "float_of raw") (auto simp: fix_value_def div_100_def)
  from assms raw q have "x = PFloat (nearest_double (q / 100))"
    by (auto simp: fix_value_def div_100_def)
  with raw q show ?thesis by blast
qed

lemma convert_params_keys:
  assumes "convert_params ext device entries acc = Inr payload"
  shows "dict_has payload k =
          (dict_has acc k \<or>
           (\<exists>e\<in>set entries. accepted e \<and> (\<exists>n. canonical_name ext device e = Inr n \<and> py_eq n k)))"
  using assms
proof (induction entries arbitrary: acc)
  case Nil
  then show ?case by simp
next
  case (Cons e entries)
  from Cons.prems obtain r where r: "convert_param ext device e = Inr r"
    by (cases "convert_param ext device e") simp_all
  from convert_param_cases [OF r] show ?case
  proof
    assume skip: "r = None \<and> \<not> accepted e"
    with Cons.prems r have "convert_params ext device entries acc = Inr payload" by simp
    from Cons.IH [OF this] skip show ?thesis by simp
  next
    assume "\<exists>n v. r = Some (n, v) \<and> accepted e \<and> canonical_name ext device e = Inr n
                \<and> fix_value n e = Inr v"
    then obtain n v where nv: "r = Some (n, v)" "accepted e" "canonical_name ext device e = Inr n"
      by blast
    from Cons.prems r nv(1) have rest: "convert_params ext device entries (dict_set acc n v) = Inr payload"
      by (simp add: dict_store_def split: if_splits)
    from Cons.IH [OF rest] nv(2,3) show ?thesis
      by (auto simp: dict_has_dict_set_iff)
  qed
qed

lemma convert_params_values:
  assumes "convert_params ext device entries acc = Inr payload"
    and "dict_get payload (PStr name) = Some x" and "name = ''temperature'' \<or> name = ''humidity''"
  shows "dict_get acc (PStr name) = Some x \<or>
         (\<exists>e\<in>set entries. accepted e \<and> canonical_name ext device e = Inr (PStr name) \<and>
            (\<exists>raw q. subscr e (PStr ''value'') = Inr raw \<and> float_of raw = Inr q \<and> x = PFloat (nearest_double (q / 100))))"
  using assms(1)
proof (induction entries arbitrary: acc)
  case Nil
  with assms(2) show ?case by simp
next
  case (Cons e entries)
  from Cons.prems obtain r where r: "convert_param ext device e = Inr r"
    by (cases "convert_param ext device e") simp_all
  from convert_param_cases [OF r] show ?case
  proof
    assume skip: "r = None \<and> \<not> accepted e"
    with Cons.prems r have "convert_params ext device entries acc = Inr payload" by simp
    from Cons.IH [OF this] show ?thesis by auto
  next
    assume "\<exists>n v. r = Some (n, v) \<and> accepted e \<and> canonical_name ext device e = Inr n
                \<and> fix_value n e = Inr v"
    then obtain n v where nv: "r = Some (n, v)" "accepted e" "canonical_name ext device e = Inr n"
      "fix_value n e = Inr v"
      by blast
    from Cons.prems r nv(1) have rest: "convert_params ext device entries (dict_set acc n v) = Inr payload"
      by (simp add: dict_store_def split: if_splits)
    from Cons.IH [OF rest] show ?thesis
    proof
      assume later: "\<exists>e\<in>set entries. accepted e \<and> canonical_name ext device e = Inr (PStr name) \<and>
            (\<exists>raw q. subscr e (PStr ''value'') = Inr raw \<and> float_of raw = Inr q \<and> x = PFloat (nearest_double (q / 100)))"
      then show ?thesis by auto
    next
      assume here: "dict_get (dict_set acc n v) (PStr name) = Some x"
      show ?thesis
      proof (cases "n = PStr name")
        case False
        with here show ?thesis by (simp add: dict_get_dict_set)
      next
        case True
        with here have "v = x" by (simp add: dict_get_dict_set)
        with nv(4) True have "fix_value (PStr name) e = Inr x" by simp
        then have "\<exists>raw q. subscr e (PStr ''value'') = Inr raw \<and> float_of raw = Inr q \<and> x = PFloat (nearest_double (q / 100))"
          using assms(3) by (rule fix_value_div_100)
        with nv(2,3) True show ?thesis by auto
      qed
    qed
  qed
qed

lemma resolve_prop_spec:
  assumes "dict_get device (PStr ''params'') = Some (PList (map encode_spec ps))" and "hashable w"
  shows "resolve_prop ext device w = Inr (spec_resolve (GLOBAL_PROP ext) ps w)"
proof (cases "dict_get (GLOBAL_PROP ext) w")
  case (Some n)
  with assms(2) show ?thesis
    by (simp add: resolve_prop_def spec_resolve_def dict_contains_def dict_has_def dict_item_def)
next
  case None
  with assms show ?thesis
    by (simp add: resolve_prop_def spec_resolve_def dict_contains_def dict_has_def dict_item_def
        find_name_encode split: option.splits)
qed

lemma canonical_name_spec:
  assumes "dict_get device (PStr ''params'') = Some (PList (map encode_spec ps))"
    and "wire_name ext e = Inr w"
  shows "canonical_name ext device e =
           (if hashable w then Inr (spec_resolve (GLOBAL_PROP ext) ps w) else Inl TypeError)"
proof (cases "hashable w")
  case True
  with assms show ?thesis by (simp add: canonical_name_def resolve_prop_spec)
next
  case False
  with assms(2) show ?thesis
    by (simp add: canonical_name_def resolve_prop_def dict_contains_def)
qed

lemma fix_value_total:
  assumes "dict_get d (PStr ''value'') = Some v"
    and "n = PStr ''temperature'' \<or> n = PStr ''humidity'' \<longrightarrow> \<not> isl (float_of v)"
    and "n = PStr ''battery'' \<longrightarrow> num_val v \<noteq> None"
  shows "\<exists>x. fix_value n (PDict d) = Inr x"
proof (cases "n = PStr ''temperature'' \<or> n = PStr ''humidity''")
  case True
  with assms(2) obtain q where "float_of v = Inr q" by (cases "float_of v") auto
  with True assms(1) show ?thesis
    by (auto simp: fix_value_def dict_item_def div_100_def)
next
  case False
  show ?thesis
  proof (cases "n = PStr ''battery''")
    case True
    with assms(3) obtain x where "num_val v = Some x" by auto
    then have "\<exists>d. battery_offset v = Some d"
      by (cases v) (simp_all add: battery_offset_def)
    with True assms(1) \<open>num_val v = Some x\<close> show ?thesis
      by (auto simp: fix_value_def dict_item_def gt_1000_def battery_percent_def)
  next
    case other: False
    with False assms(1) show ?thesis
      by (simp add: fix_value_def dict_item_def)
  qed
qed


text \<open>The code reads an entry as the specification describes it.\<close>

lemma accepted_spec: "accepted (PDict e) = zero_error_code e"
  by (simp add: accepted_def zero_error_code_def split: option.splits)

lemma wire_name_spec:
  "wire_name ext (PDict e) =
     (case spec_wire (format_other ext) e of Some w \<Rightarrow> Inr w | None \<Rightarrow> Inl KeyError)"
  by (simp add: wire_name_def spec_wire_def dict_contains_def dict_has_def dict_item_def
      split: option.splits)

lemma convert_param_total:
  assumes "dict_get device (PStr ''params'') = Some (PList (map encode_spec ps))"
    and "convertible ext ps (PDict e)"
  shows "\<exists>r. convert_param ext device (PDict e) = Inr r \<and> (\<forall>n v. r = Some (n, v) \<longrightarrow> hashable n)"
proof -
  have get: "py_get (PDict e) (PStr ''error_code'') (PInt 0)
      = Inr (case dict_get e (PStr ''error_code'') of None \<Rightarrow> PInt 0 | Some c \<Rightarrow> c)"
    by simp
  show ?thesis
  proof (cases "zero_error_code e")
    case False
    with get show ?thesis
      by (simp add: convert_param_def zero_error_code_def split: option.splits)
  next
    case True
    with assms(2) obtain w v where w: "spec_wire (format_other ext) e = Some w"
      and v: "dict_get e (PStr ''value'') = Some v"
      and hw: "hashable w" and hn: "hashable (spec_resolve (GLOBAL_PROP ext) ps w)"
      and num: "spec_resolve (GLOBAL_PROP ext) ps w = PStr ''temperature''
                \<or> spec_resolve (GLOBAL_PROP ext) ps w = PStr ''humidity'' \<longrightarrow> \<not> isl (float_of v)"
               "spec_resolve (GLOBAL_PROP ext) ps w = PStr ''battery'' \<longrightarrow> num_val v \<noteq> None"
      by (auto simp: convertible_def Let_def split: option.splits)
    from w have "wire_name ext (PDict e) = Inr w" by (simp add: wire_name_spec)
    with assms(1) hw have cn: "canonical_name ext device (PDict e) = Inr (spec_resolve (GLOBAL_PROP ext) ps w)"
      by (simp add: canonical_name_spec)
    from v num obtain x where "fix_value (spec_resolve (GLOBAL_PROP ext) ps w) (PDict e) = Inr x"
      using fix_value_total by blast
    with True get cn hn show ?thesis
      by (simp add: convert_param_def zero_error_code_def split: option.splits)
  qed
qed

lemma convertible_dict: "convertible ext ps e \<Longrightarrow> \<exists>d. e = PDict d"
  by (cases e) (simp_all add: convertible_def)

lemma convert_params_total:
  assumes "dict_get device (PStr ''params'') = Some (PList (map encode_spec ps))"
    and "list_all (convertible ext ps) entries"
  shows "\<exists>payload. convert_params ext device entries acc = Inr payload"
  using assms(2)
proof (induction entries arbitrary: acc)
  case Nil
  show ?case by simp
next
  case (Cons e entries)
  from Cons.prems have c: "convertible ext ps e" and rest: "list_all (convertible ext ps) entries"
    by simp_all
  from c obtain d where d: "e = PDict d" using convertible_dict by blast
  from assms(1) c d obtain r where r: "convert_param ext device e = Inr r"
    and h: "\<forall>n v. r = Some (n, v) \<longrightarrow> hashable n"
    using convert_param_total by blast
  show ?case
  proof (cases r)
    case None
    with r Cons.IH [OF rest, of acc] show ?thesis by simp
  next
    case (Some a)
    obtain n v where a: "a = (n, v)" by (cases a)
    with Some h have "hashable n" by simp
    with r Some a Cons.IH [OF rest, of "dict_set acc n v"] show ?thesis
      by (simp add: dict_store_def)
  qed
qed

lemma convertible_wire:
  assumes "convertible ext ps (PDict e)" and "zero_error_code e"
    and "spec_wire (format_other ext) e = Some w"
  shows "hashable w"
  using assms by (auto simp: convertible_def Let_def split: option.splits)

text \<open>The branch on \<^verbatim>\<open>cmd\<close> reads the entries where the specification says.\<close>

lemma select_params_spec:
  assumes "spec_entries d = Some (item, entries)"
  shows "\<exists>pkey. select_params (PDict d) = Inr (PDict item, pkey)
               \<and> subscr (PDict item) pkey = Inr (PList entries)"
proof -
  from assms obtain cmd where cmd: "dict_get d (PStr ''cmd'') = Some (PStr cmd)"
    by (auto simp: spec_entries_def split: option.splits pyval.splits)
  from assms cmd consider "cmd = ''heartbeat''" | "cmd = ''report''" | "cmd = ''write_rsp''"
    by (auto simp: spec_entries_def split: if_splits)
  then show ?thesis
  proof cases
    case 1
    with assms cmd have "\<exists>item'. dict_get d (PStr ''params'') = Some (PList [PDict item'])"
      by (auto simp: spec_entries_def split: option.splits pyval.splits list.splits)
    then obtain item' where p: "dict_get d (PStr ''params'') = Some (PList [PDict item'])" by blast
    with assms cmd 1 have "item' = item" "dict_get item (PStr ''res_list'') = Some (PList entries)"
      by (auto simp: spec_entries_def split: option.splits pyval.splits)
    with cmd 1 p show ?thesis
      by (simp add: select_params_def dict_item_def list_item_def position_def)
  next
    case 2
    show ?thesis
    proof (cases "dict_get d (PStr ''params'')")
      case None
      with assms cmd 2 have "item = d" "dict_get d (PStr ''mi_spec'') = Some (PList entries)"
        by (auto simp: spec_entries_def split: option.splits pyval.splits)
      with cmd 2 None show ?thesis
        by (simp add: select_params_def dict_item_def dict_contains_def dict_has_def)
    next
      case (Some a)
      with assms cmd 2 have "item = d" "a = PList entries"
        by (auto simp: spec_entries_def split: pyval.splits)
      with cmd 2 Some show ?thesis
        by (simp add: select_params_def dict_item_def dict_contains_def dict_has_def)
    qed
  next
    case 3
    with assms cmd have "item = d" "dict_get d (PStr ''results'') = Some (PList entries)"
      by (auto simp: spec_entries_def split: option.splits pyval.splits)
    with cmd 3 show ?thesis
      by (simp add: select_params_def dict_item_def)
  qed
qed

text \<open>Setting devices up adds calls of setup handlers to the record, and nothing else.\<close>

lemma setup_params_calls:
  "\<exists>rest. calls (snd (setup_params gw device ps)) = calls gw @ rest \<and> list_all is_setup rest"
proof (induction ps arbitrary: gw)
  case Nil
  show ?case by simp
next
  case (Cons p ps)
  show ?case
  proof (cases "subscr p (PInt 3)")
    case (Inl e)
    then show ?thesis by simp
  next
    case (Inr domain)
    show ?thesis
    proof (cases "truthy domain")
      case False
      with Inr Cons.IH show ?thesis by simp
    next
      case True
      show ?thesis
      proof (cases "dict_contains (setups gw) domain")
        case (Inl e)
        with Inr True show ?thesis by simp
      next
        case known: (Inr b)
        show ?thesis
        proof (cases b)
          case False
          with Inr True known show ?thesis by simp
        next
          case b: True
          show ?thesis
          proof (cases "andThen (subscr p (PInt 2))
                         (\<lambda>attr. andThen (dict_item (setups gw) domain)
                         (\<lambda>handler. Inr (Setup handler device attr)))")
            case (Inl e)
            with Inr True known b show ?thesis by simp
          next
            case c: (Inr c)
            then have "is_setup c"
              by (auto simp: andThen_def split: sum.splits)
            moreover obtain rest where
              "calls (snd (setup_params (gw\<lparr>calls := calls gw @ [c]\<rparr>) device ps))
                 = calls gw @ [c] @ rest" "list_all is_setup rest"
              using Cons.IH [of "gw\<lparr>calls := calls gw @ [c]\<rparr>"] by auto
            ultimately have "calls (snd (setup_params (gw\<lparr>calls := calls gw @ [c]\<rparr>) device ps))
                 = calls gw @ (c # rest) \<and> list_all is_setup (c # rest)"
              by simp
            then have "\<exists>rest. calls (snd (setup_params (gw\<lparr>calls := calls gw @ [c]\<rparr>) device ps))
                 = calls gw @ rest \<and> list_all is_setup rest"
              by blast
            with Inr True known b c show ?thesis by simp
          qed
        qed
      qed
    qed
  qed
qed

lemma setup_devices_calls:
  "\<exists>rest. calls (snd (setup_devices ext gw ds)) = calls gw @ rest \<and> list_all is_setup rest"
proof (induction ds arbitrary: gw)
  case Nil
  show ?case by simp
next
  case (Cons d ds)
  show ?case
  proof (cases "\<exists>device. d = PDict device")
    case False
    then show ?thesis by (cases d) simp_all
  next
    case True
    then obtain device where d: "d = PDict device" by blast
    show ?thesis
    proof (cases "merge_device ext gw device")
      case (Inl e)
      with d show ?thesis by simp
    next
      case (Inr m)
      show ?thesis
      proof (cases m)
        case None
        with Inr d Cons.IH [of gw] show ?thesis by simp
      next
        case (Some a)
        obtain did dev where a: "a = (did, dev)" by (cases a)
        define gw' where "gw' = gw\<lparr>devices := dict_set (devices gw) did dev\<rparr>"
        have c': "calls gw' = calls gw" by (simp add: gw'_def)
        show ?thesis
        proof (cases "andThen (dict_item dev (PStr ''params'')) py_iter")
          case (Inl e)
          with Inr Some a d show ?thesis by (simp add: gw'_def)
        next
          case ps: (Inr ps)
          obtain out gw'' where sp: "setup_params gw' dev ps = (out, gw'')"
            by (cases "setup_params gw' dev ps")
          obtain r1 where r1: "calls gw'' = calls gw @ r1" "list_all is_setup r1"
            using setup_params_calls [of gw' dev ps] sp c' by auto
          show ?thesis
          proof (cases out)
            case Done
            obtain r2 where "calls (snd (setup_devices ext gw'' ds)) = calls gw'' @ r2" "list_all is_setup r2"
              using Cons.IH [of gw''] by auto
            with r1 have "calls (snd (setup_devices ext gw'' ds)) = calls gw @ (r1 @ r2)
                \<and> list_all is_setup (r1 @ r2)"
              by simp
            then have "\<exists>rest. calls (snd (setup_devices ext gw'' ds)) = calls gw @ rest
                \<and> list_all is_setup rest"
              by blast
            with Inr Some a ps sp Done d show ?thesis by (simp add: gw'_def)
          next
            case (Raised e)
            with Inr Some a ps sp r1 d show ?thesis by (simp add: gw'_def)
          next
            case Waiting
            with Inr Some a ps sp r1 d show ?thesis by (simp add: gw'_def)
          qed
        qed
      qed
    qed
  qed
qed

lemma added_device_calls:
  "\<exists>rest. calls (snd (added_device ext gw payload)) = calls gw @ rest \<and> list_all is_setup rest"
proof (cases "dict_has payload (PStr ''added_device'')")
  case False
  then show ?thesis by (simp add: added_device_def)
next
  case True
  show ?thesis
  proof (cases "andThen (dict_item payload (PStr ''added_device'')) (\<lambda>device.
              andThen (subscr device (PStr ''mac'')) (\<lambda>mac.
              andThen (prefix_0x mac) (\<lambda>mac.
                case device of
                  PDict d \<Rightarrow> Inr (PDict (dict_set d (PStr ''mac'') mac))
                | _ \<Rightarrow> Inl TypeError)))")
    case (Inl e)
    with True show ?thesis by (simp add: added_device_def)
  next
    case (Inr device)
    with True setup_devices_calls [of ext gw "[device]"] show ?thesis
      by (simp add: added_device_def)
  qed
qed

text \<open>
  Claim C2. Take an envelope of one of the three kinds, as the specification describes
  them (\<open>spec_entries\<close>), for a device id with update handlers, a registered device
  whose parameterSpec is a list of descriptors, and parameter entries that can be
  converted. Then \<^verbatim>\<open>process_message\<close> calls every handler once with one payload, before
  anything else and followed by calls of setup handlers only (none unless the payload
  reports an added device), and
  \<^item> the keys of the payload are the canonical names of the entries with a zero or
    absent error code, where the canonical name of the wire name that an entry carries
    is the one the specification describes (global table first, then the wire names
    of the parameterSpec, else the wire name itself);
  \<^item> every temperature and humidity value of the payload is the raw value of such an
    entry divided by 100, as floats are divided: the double nearest to the quotient
    (the raw value is a finite number, as every number of the model is).
\<close>

theorem normalized_update:
  assumes envelope: "spec_entries envelope = Some (item, entries)"
    and did: "dict_get item (PStr ''did'') = Some did" "hashable did"
      "dict_get (updates gw) did = Some handlers"
    and device: "dict_get (devices gw) did = Some device"
      "dict_get device (PStr ''params'') = Some (PList (map encode_spec parameterSpec))"
      "dict_has device (PStr ''did'')" "dict_has device (PStr ''model'')"
    and entries: "list_all (convertible ext parameterSpec) entries"
  shows "\<exists>payload rest.
      calls (snd (process_message ext gw (PDict envelope)))
        = calls gw @ map (\<lambda>handler. Update handler payload) handlers @ rest
    \<and> list_all is_setup rest
    \<and> (\<not> dict_has payload (PStr ''added_device'') \<longrightarrow>
          process_message ext gw (PDict envelope)
            = (Done, gw\<lparr>calls := calls gw @ map (\<lambda>handler. Update handler payload) handlers\<rparr>))
    \<and> (\<forall>k. dict_has payload k =
          (\<exists>e. PDict e \<in> set entries \<and> zero_error_code e \<and>
             (\<exists>w. spec_wire (format_other ext) e = Some w
                \<and> py_eq (spec_resolve (GLOBAL_PROP ext) parameterSpec w) k)))
    \<and> (\<forall>name x. (name = ''temperature'' \<or> name = ''humidity'')
                  \<and> dict_get payload (PStr name) = Some x \<longrightarrow>
          (\<exists>e. PDict e \<in> set entries \<and> zero_error_code e
             \<and> (\<exists>w. spec_wire (format_other ext) e = Some w
                  \<and> spec_resolve (GLOBAL_PROP ext) parameterSpec w = PStr name)
             \<and> (\<exists>raw q. dict_get e (PStr ''value'') = Some raw \<and> float_of raw = Inr q
                  \<and> x = PFloat (nearest_double (q / 100)))))"
proof -
  from envelope obtain pkey where
    select: "select_params (PDict envelope) = Inr (PDict item, pkey)"
    and listed: "subscr (PDict item) pkey = Inr (PList entries)"
    using select_params_spec by blast
  from device(2) entries obtain payload where
    conv: "convert_params ext device entries [] = Inr payload"
    using convert_params_total by blast
  have name_of: "\<exists>e w. ent = PDict e \<and> zero_error_code e \<and> spec_wire (format_other ext) e = Some w
                   \<and> spec_resolve (GLOBAL_PROP ext) parameterSpec w = n"
    if "ent \<in> set entries" "accepted ent" "canonical_name ext device ent = Inr n" for ent n
  proof -
    from that(1) entries have "convertible ext parameterSpec ent" by (simp add: list_all_iff)
    then obtain e where e: "ent = PDict e" using convertible_dict by blast
    from that(3) obtain w where w: "wire_name ext ent = Inr w"
      by (cases "wire_name ext ent") (simp_all add: canonical_name_def)
    with e have sw: "spec_wire (format_other ext) e = Some w"
      by (simp add: wire_name_spec split: option.splits)
    from that(3) canonical_name_spec [OF device(2) w]
    have "spec_resolve (GLOBAL_PROP ext) parameterSpec w = n"
      by (simp split: if_splits)
    with e sw that(2) show ?thesis by (simp add: accepted_spec)
  qed
  have resolved: "accepted (PDict e)
      \<and> canonical_name ext device (PDict e) = Inr (spec_resolve (GLOBAL_PROP ext) parameterSpec w)"
    if "PDict e \<in> set entries" "zero_error_code e" "spec_wire (format_other ext) e = Some w" for e w
  proof -
    from that(1) entries have c: "convertible ext parameterSpec (PDict e)"
      by (simp add: list_all_iff)
    from c that(2,3) have "hashable w" by (rule convertible_wire)
    moreover from that(3) have "wire_name ext (PDict e) = Inr w" by (simp add: wire_name_spec)
    ultimately show ?thesis
      using canonical_name_spec [OF device(2), of ext "PDict e" w] that(2)
      by (simp add: accepted_spec)
  qed
  from device(3,4) obtain a b where ab: "dict_get device (PStr ''did'') = Some a"
      "dict_get device (PStr ''model'') = Some b"
    by (auto simp: dict_has_def split: option.splits)
  from did(2) device(1) listed conv ab
  have built: "build_payload ext gw (PDict item) pkey did = Inr payload"
    by (simp add: build_payload_def dict_item_def)
  define gw' where "gw' = gw\<lparr>calls := calls gw @ map (\<lambda>handler. Update handler payload) handlers\<rparr>"
  from select did built have run: "process_message ext gw (PDict envelope) = added_device ext gw' payload"
    by (simp add: process_message_def dispatch_params_def dict_contains_def dict_has_def
        dict_item_def gw'_def)
  obtain rest where rest: "calls (snd (added_device ext gw' payload)) = calls gw' @ rest"
      "list_all is_setup rest"
    using added_device_calls by blast
  have called: "calls (snd (process_message ext gw (PDict envelope)))
        = calls gw @ map (\<lambda>handler. Update handler payload) handlers @ rest"
    using run rest(1) by (simp add: gw'_def)
  have plain: "process_message ext gw (PDict envelope)
            = (Done, gw\<lparr>calls := calls gw @ map (\<lambda>handler. Update handler payload) handlers\<rparr>)"
    if "\<not> dict_has payload (PStr ''added_device'')"
    using run that by (simp add: added_device_def gw'_def)
  have keys: "dict_has payload k =
          (\<exists>e. PDict e \<in> set entries \<and> zero_error_code e \<and>
             (\<exists>w. spec_wire (format_other ext) e = Some w
                \<and> py_eq (spec_resolve (GLOBAL_PROP ext) parameterSpec w) k))" for k
  proof -
    have "dict_has payload k =
       (\<exists>ent\<in>set entries. accepted ent \<and> (\<exists>n. canonical_name ext device ent = Inr n \<and> py_eq n k))"
      using convert_params_keys [OF conv, of k] by (simp add: dict_has_def)
    also have "\<dots> = (\<exists>e. PDict e \<in> set entries \<and> zero_error_code e \<and>
             (\<exists>w. spec_wire (format_other ext) e = Some w
                \<and> py_eq (spec_resolve (GLOBAL_PROP ext) parameterSpec w) k))"
    proof
      assume "\<exists>ent\<in>set entries. accepted ent \<and> (\<exists>n. canonical_name ext device ent = Inr n \<and> py_eq n k)"
      then obtain ent n where ent: "ent \<in> set entries" "accepted ent"
        "canonical_name ext device ent = Inr n" "py_eq n k" by blast
      from name_of [OF ent(1,2,3)] ent(1,4)
      show "\<exists>e. PDict e \<in> set entries \<and> zero_error_code e \<and>
             (\<exists>w. spec_wire (format_other ext) e = Some w
                \<and> py_eq (spec_resolve (GLOBAL_PROP ext) parameterSpec w) k)"
        by blast
    next
      assume "\<exists>e. PDict e \<in> set entries \<and> zero_error_code e \<and>
             (\<exists>w. spec_wire (format_other ext) e = Some w
                \<and> py_eq (spec_resolve (GLOBAL_PROP ext) parameterSpec w) k)"
      then obtain e w where e: "PDict e \<in> set entries" "zero_error_code e"
        "spec_wire (format_other ext) e = Some w"
        "py_eq (spec_resolve (GLOBAL_PROP ext) parameterSpec w) k" by blast
      from resolved [OF e(1,2,3)] e(1,4)
      show "\<exists>ent\<in>set entries. accepted ent \<and> (\<exists>n. canonical_name ext device ent = Inr n \<and> py_eq n k)"
        by blast
    qed
    finally show ?thesis .
  qed
  have vals: "\<exists>e. PDict e \<in> set entries \<and> zero_error_code e
             \<and> (\<exists>w. spec_wire (format_other ext) e = Some w
                  \<and> spec_resolve (GLOBAL_PROP ext) parameterSpec w = PStr name)
             \<and> (\<exists>raw q. dict_get e (PStr ''value'') = Some raw \<and> float_of raw = Inr q
                  \<and> x = PFloat (nearest_double (q / 100)))"
    if "name = ''temperature'' \<or> name = ''humidity''" "dict_get payload (PStr name) = Some x"
    for name x
  proof -
    from convert_params_values [OF conv that(2,1)]
    obtain ent raw q where ent: "ent \<in> set entries" "accepted ent"
      "canonical_name ext device ent = Inr (PStr name)"
      "subscr ent (PStr ''value'') = Inr raw" "float_of raw = Inr q"
      "x = PFloat (nearest_double (q / 100))"
      by auto
    from name_of [OF ent(1,2,3)] obtain e w where e: "ent = PDict e" "zero_error_code e"
      "spec_wire (format_other ext) e = Some w"
      "spec_resolve (GLOBAL_PROP ext) parameterSpec w = PStr name"
      by blast
    from ent(4) e(1) have "dict_get e (PStr ''value'') = Some raw"
      by (simp add: dict_item_def split: option.splits)
    with ent(1,5,6) e show ?thesis by blast
  qed
  show ?thesis
  proof (rule exI [where x = payload], rule exI [where x = rest], intro conjI)
    show "calls (snd (process_message ext gw (PDict envelope)))
        = calls gw @ map (\<lambda>handler. Update handler payload) handlers @ rest"
      by (rule called)
  next
    show "list_all is_setup rest" by (rule rest(2))
  next
    show "\<not> dict_has payload (PStr ''added_device'') \<longrightarrow>
          process_message ext gw (PDict envelope)
            = (Done, gw\<lparr>calls := calls gw @ map (\<lambda>handler. Update handler payload) handlers\<rparr>)"
      by (intro impI) (rule plain)
  next
    show "\<forall>k. dict_has payload k =
          (\<exists>e. PDict e \<in> set entries \<and> zero_error_code e \<and>
             (\<exists>w. spec_wire (format_other ext) e = Some w
                \<and> py_eq (spec_resolve (GLOBAL_PROP ext) parameterSpec w) k))"
      by (intro allI) (rule keys)
  next
    show "\<forall>name x. (name = ''temperature'' \<or> name = ''humidity'')
                  \<and> dict_get payload (PStr name) = Some x \<longrightarrow>
          (\<exists>e. PDict e \<in> set entries \<and> zero_error_code e
             \<and> (\<exists>w. spec_wire (format_other ext) e = Some w
                  \<and> spec_resolve (GLOBAL_PROP ext) parameterSpec w = PStr name)
             \<and> (\<exists>raw q. dict_get e (PStr ''value'') = Some raw \<and> float_of raw = Inr q
                  \<and> x = PFloat (nearest_double (q / 100))))"
    proof (intro allI impI)
      fix name x
      assume "(name = ''temperature'' \<or> name = ''humidity'') \<and> dict_get payload (PStr name) = Some x"
      then have "name = ''temperature'' \<or> name = ''humidity''" "dict_get payload (PStr name) = Some x"
        by simp_all
      then show "\<exists>e. PDict e \<in> set entries \<and> zero_error_code e
             \<and> (\<exists>w. spec_wire (format_other ext) e = Some w
                  \<and> spec_resolve (GLOBAL_PROP ext) parameterSpec w = PStr name)
             \<and> (\<exists>raw q. dict_get e (PStr ''value'') = Some raw \<and> float_of raw = Inr q
                  \<and> x = PFloat (nearest_double (q / 100)))"
        by (rule vals)
    qed
  qed
qed

theorem normalized_update_witness:
  "\<exists>payload rest.
      calls (snd (process_message sample_ext sample_gw sample_report))
        = calls sample_gw @ map (\<lambda>handler. Update handler payload) [7] @ rest
    \<and> list_all is_setup rest
    \<and> (\<not> dict_has payload (PStr ''added_device'') \<longrightarrow>
          process_message sample_ext sample_gw sample_report
            = (Done, sample_gw\<lparr>calls := calls sample_gw @ map (\<lambda>handler. Update handler payload) [7]\<rparr>))
    \<and> (\<forall>k. dict_has payload k =
          (\<exists>e. PDict e \<in> set [PDict [(PStr ''res_name'', PStr ''0.1.85''), (PStr ''value'', PInt 2350)],
                PDict [(PStr ''res_name'', PStr ''8.0.2008''), (PStr ''value'', PInt 3005)],
                PDict [(PStr ''res_name'', PStr ''0.2.85''), (PStr ''value'', PInt 1), (PStr ''error_code'', PInt (- 5))],
                PDict [(PStr ''siid'', PInt 2), (PStr ''piid'', PInt 13), (PStr ''value'', PStr ''on'')]] \<and> zero_error_code e \<and>
             (\<exists>w. spec_wire (format_other sample_ext) e = Some w
                \<and> py_eq (spec_resolve (GLOBAL_PROP sample_ext) sample_parameters w) k)))
    \<and> (\<forall>name x. (name = ''temperature'' \<or> name = ''humidity'')
                  \<and> dict_get payload (PStr name) = Some x \<longrightarrow>
          (\<exists>e. PDict e \<in> set [PDict [(PStr ''res_name'', PStr ''0.1.85''), (PStr ''value'', PInt 2350)],
                PDict [(PStr ''res_name'', PStr ''8.0.2008''), (PStr ''value'', PInt 3005)],
                PDict [(PStr ''res_name'', PStr ''0.2.85''), (PStr ''value'', PInt 1), (PStr ''error_code'', PInt (- 5))],
                PDict [(PStr ''siid'', PInt 2), (PStr ''piid'', PInt 13), (PStr ''value'', PStr ''on'')]] \<and> zero_error_code e
             \<and> (\<exists>w. spec_wire (format_other sample_ext) e = Some w
                  \<and> spec_resolve (GLOBAL_PROP sample_ext) sample_parameters w = PStr name)
             \<and> (\<exists>raw q. dict_get e (PStr ''value'') = Some raw \<and> float_of raw = Inr q
                  \<and> x = PFloat (nearest_double (q / 100)))))"
  unfolding sample_report_def
proof (rule normalized_update [where did = "PStr ''lumi.1''" and device = sample_device
      and item = "[(PStr ''cmd'', PStr ''report''), (PStr ''did'', PStr ''lumi.1''),
                   (PStr ''params'', PList [PDict [(PStr ''res_name'', PStr ''0.1.85''), (PStr ''value'', PInt 2350)],
                PDict [(PStr ''res_name'', PStr ''8.0.2008''), (PStr ''value'', PInt 3005)],
                PDict [(PStr ''res_name'', PStr ''0.2.85''), (PStr ''value'', PInt 1), (PStr ''error_code'', PInt (- 5))],
                PDict [(PStr ''siid'', PInt 2), (PStr ''piid'', PInt 13), (PStr ''value'', PStr ''on'')]])]"])
  show "spec_entries [(PStr ''cmd'', PStr ''report''), (PStr ''did'', PStr ''lumi.1''),
                      (PStr ''params'', PList [PDict [(PStr ''res_name'', PStr ''0.1.85''), (PStr ''value'', PInt 2350)],
                PDict [(PStr ''res_name'', PStr ''8.0.2008''), (PStr ''value'', PInt 3005)],
                PDict [(PStr ''res_name'', PStr ''0.2.85''), (PStr ''value'', PInt 1), (PStr ''error_code'', PInt (- 5))],
                PDict [(PStr ''siid'', PInt 2), (PStr ''piid'', PInt 13), (PStr ''value'', PStr ''on'')]])]
        = Some ([(PStr ''cmd'', PStr ''report''), (PStr ''did'', PStr ''lumi.1''),
                 (PStr ''params'', PList [PDict [(PStr ''res_name'', PStr ''0.1.85''), (PStr ''value'', PInt 2350)],
                PDict [(PStr ''res_name'', PStr ''8.0.2008''), (PStr ''value'', PInt 3005)],
                PDict [(PStr ''res_name'', PStr ''0.2.85''), (PStr ''value'', PInt 1), (PStr ''error_code'', PInt (- 5))],
                PDict [(PStr ''siid'', PInt 2), (PStr ''piid'', PInt 13), (PStr ''value'', PStr ''on'')]])], [PDict [(PStr ''res_name'', PStr ''0.1.85''), (PStr ''value'', PInt 2350)],
                PDict [(PStr ''res_name'', PStr ''8.0.2008''), (PStr ''value'', PInt 3005)],
                PDict [(PStr ''res_name'', PStr ''0.2.85''), (PStr ''value'', PInt 1), (PStr ''error_code'', PInt (- 5))],
                PDict [(PStr ''siid'', PInt 2), (PStr ''piid'', PInt 13), (PStr ''value'', PStr ''on'')]])"
    by (simp add: spec_entries_def)
  show "dict_get (updates sample_gw) (PStr ''lumi.1'') = Some [7]"
    by (simp add: sample_gw_def)
  show "dict_get (devices sample_gw) (PStr ''lumi.1'') = Some sample_device"
    by (simp add: sample_gw_def)
  show "dict_get sample_device (PStr ''params'') = Some (PList (map encode_spec sample_parameters))"
    by (simp add: sample_device_def sample_specs_def sample_parameters_def encode_spec_def)
  show "dict_has sample_device (PStr ''did'')" "dict_has sample_device (PStr ''model'')"
    by (simp_all add: sample_device_def dict_has_def)
  show "list_all (convertible sample_ext sample_parameters) [PDict [(PStr ''res_name'', PStr ''0.1.85''), (PStr ''value'', PInt 2350)],
                PDict [(PStr ''res_name'', PStr ''8.0.2008''), (PStr ''value'', PInt 3005)],
                PDict [(PStr ''res_name'', PStr ''0.2.85''), (PStr ''value'', PInt 1), (PStr ''error_code'', PInt (- 5))],
                PDict [(PStr ''siid'', PInt 2), (PStr ''piid'', PInt 13), (PStr ''value'', PStr ''on'')]]"
    by (simp add: convertible_def zero_error_code_def spec_wire_def spec_resolve_def
        sample_parameters_def sample_ext_def float_of_def py_eq_def str_int_def str_nat.simps)
qed simp_all

text \<open>The sample report, run.\<close>

lemma normalized_update_sample:
  "process_message sample_ext sample_gw sample_report
   = (Done, sample_gw\<lparr>calls := [Update 7
        [(PStr ''temperature'', PFloat (47 / 2)), (PStr ''voltage'', PInt 3005),
         (PStr ''2.13'', PStr ''on'')]]\<rparr>)"
  by (simp add: sample_report_def process_message_def select_params_def dispatch_params_def py_defs
      py_eq_def str_int_def str_nat.simps
      sample_gw_def sample_ext_def sample_device_def sample_specs_def)


text \<open>
  A quotient that is not a double: 2351 / 100.0 is the double nearest to 23.51, which is
  \<^verbatim>\<open>6617476702467523 / 2^48\<close> (23.510000000000001563...).
\<close>

lemma rounded_quotient_sample:
  "process_message sample_ext sample_gw
     (PDict [(PStr ''cmd'', PStr ''report''), (PStr ''did'', PStr ''lumi.1''),
             (PStr ''params'', PList [PDict [(PStr ''res_name'', PStr ''0.1.85''),
                                            (PStr ''value'', PInt 2351)]])])
   = (Done, sample_gw\<lparr>calls := [Update 7
        [(PStr ''temperature'', PFloat (6617476702467523 / 281474976710656))]]\<rparr>)"
  by (simp add: process_message_def select_params_def dispatch_params_def py_defs
      nearest_double_2351 sample_gw_def sample_ext_def sample_device_def sample_specs_def)


end
